theory Spec2Isabelle
  imports Main "HOL-Library.Sublist"
begin

section \<open>Python strings\<close>

text \<open>
  A Python \<open>str\<close> is modelled as a \<open>string\<close> holding its UTF-8 bytes. The
  backslash is named, the newline is \<open>\<newline>\<close>.
\<close>

definition backslash :: string where
  "backslash = [CHR 0x5C]"

text \<open>
  The characters for which \<open>str.isspace\<close> holds (the ones \<open>str.strip()\<close> and
  \<open>str.split()\<close> remove), each as its UTF-8 encoding: U+0009 to U+000D, U+001C to
  U+001F, U+0020, U+0085, U+00A0, U+1680, U+2000 to U+200A, U+2028, U+2029, U+202F,
  U+205F and U+3000.
\<close>

definition py_whitespace :: "string list" where
  "py_whitespace =
    [[CHR 0x09], [CHR 0x0A], [CHR 0x0B], [CHR 0x0C], [CHR 0x0D],
     [CHR 0x1C], [CHR 0x1D], [CHR 0x1E], [CHR 0x1F], [CHR 0x20],
     [CHR 0xC2, CHR 0x85], [CHR 0xC2, CHR 0xA0],
     [CHR 0xE1, CHR 0x9A, CHR 0x80],
     [CHR 0xE2, CHR 0x80, CHR 0x80], [CHR 0xE2, CHR 0x80, CHR 0x81],
     [CHR 0xE2, CHR 0x80, CHR 0x82], [CHR 0xE2, CHR 0x80, CHR 0x83],
     [CHR 0xE2, CHR 0x80, CHR 0x84], [CHR 0xE2, CHR 0x80, CHR 0x85],
     [CHR 0xE2, CHR 0x80, CHR 0x86], [CHR 0xE2, CHR 0x80, CHR 0x87],
     [CHR 0xE2, CHR 0x80, CHR 0x88], [CHR 0xE2, CHR 0x80, CHR 0x89],
     [CHR 0xE2, CHR 0x80, CHR 0x8A],
     [CHR 0xE2, CHR 0x80, CHR 0xA8], [CHR 0xE2, CHR 0x80, CHR 0xA9],
     [CHR 0xE2, CHR 0x80, CHR 0xAF], [CHR 0xE2, CHR 0x81, CHR 0x9F],
     [CHR 0xE3, CHR 0x80, CHR 0x80]]"

text \<open>
  \<open>skip_one ws s\<close> is the number of bytes of the first sequence of \<open>ws\<close> that
  \<open>s\<close> starts with, and 0 when it starts with none.
\<close>

definition skip_one :: "string list \<Rightarrow> string \<Rightarrow> nat" where
  "skip_one ws s = (case find (\<lambda>w. prefix w s) ws of None \<Rightarrow> 0 | Some w \<Rightarrow> length w)"

lemma skip_one_le: "skip_one ws s \<le> length s"
  by (auto simp: skip_one_def find_Some_iff prefix_def split: option.splits)

function strip_front :: "string list \<Rightarrow> string \<Rightarrow> string" where
  "strip_front ws s =
     (if skip_one ws s = 0 then s else strip_front ws (drop (skip_one ws s) s))"
  by pat_completeness auto
termination
proof (relation "measure (\<lambda>(ws, s). length s)")
  show "wf (measure (\<lambda>(ws, s). length s))" by simp
next
  fix ws :: "string list" and s :: string
  assume "skip_one ws s \<noteq> 0"
  moreover have "skip_one ws s \<le> length s" by (rule skip_one_le)
  ultimately show "((ws, drop (skip_one ws s) s), (ws, s)) \<in> measure (\<lambda>(ws, s). length s)"
    by simp
qed

declare strip_front.simps [simp del]

text \<open>\<open>str.lstrip()\<close>, \<open>str.rstrip()\<close> and \<open>str.strip()\<close> with no argument.\<close>

definition lstrip :: "string \<Rightarrow> string" where
  "lstrip s = strip_front py_whitespace s"

definition rstrip :: "string \<Rightarrow> string" where
  "rstrip s = rev (strip_front (map rev py_whitespace) (rev s))"

definition strip :: "string \<Rightarrow> string" where
  "strip s = rstrip (lstrip s)"

text \<open>
  \<open>str.split()\<close> with no argument: the maximal runs of non-whitespace, in order.
  \<open>split_words cur s\<close> carries the run being read.
\<close>

function split_words :: "string \<Rightarrow> string \<Rightarrow> string list" where
  "split_words cur [] = (if cur = [] then [] else [cur])"
| "split_words cur (c # cs) =
     (if skip_one py_whitespace (c # cs) = 0 then split_words (cur @ [c]) cs
      else (if cur = [] then [] else [cur])
           @ split_words [] (drop (skip_one py_whitespace (c # cs)) (c # cs)))"
  by pat_completeness auto
termination
proof (relation "measure (\<lambda>(cur, s). length s)")
  show "wf (measure (\<lambda>(cur, s). length s))" by simp
next
  fix cur :: string and c :: char and cs :: string
  show "((cur @ [c], cs), (cur, c # cs)) \<in> measure (\<lambda>(cur, s). length s)" by simp
next
  fix cur :: string and c :: char and cs :: string
  assume "skip_one py_whitespace (c # cs) \<noteq> 0"
  then show "(([], drop (skip_one py_whitespace (c # cs)) (c # cs)), (cur, c # cs))
      \<in> measure (\<lambda>(cur, s). length s)"
    by (cases "skip_one py_whitespace (c # cs)") simp_all
qed

definition split :: "string \<Rightarrow> string list" where
  "split s = split_words [] s"

text \<open>\<open>sep.join(xs)\<close>.\<close>

fun join :: "string \<Rightarrow> string list \<Rightarrow> string" where
  "join sep [] = []"
| "join sep [x] = x"
| "join sep (x # y # ys) = x @ sep @ join sep (y # ys)"

text \<open>\<open>a in b\<close> on strings: \<open>a\<close> occurs in \<open>b\<close> as a contiguous run.\<close>

definition py_in :: "string \<Rightarrow> string \<Rightarrow> bool" where
  "py_in a b = sublist a b"

section \<open>Exceptions, the host and the state of the application\<close>

text \<open>
  An exception is its class and its text \<open>str(e)\<close>. The classes are the ones the
  program raises or catches by name, \<open>OSError\<close> for the other failures of the
  operating system, and \<open>RequestException\<close> for a failure inside \<open>requests.get\<close>.
  All of them are subclasses of \<open>Exception\<close>.
\<close>

datatype exn_class =
  FileExistsError | ValueError | Exception | CalledProcessError | FileNotFoundError
  | OSError | RequestException

datatype exn = Raised exn_class string

text \<open>
  What surrounds the program is a parameter of the model: the platform, the library
  functions whose result depends on it, and the outcome of every call that leaves the
  process. \<open>os_error\<close> answers whether a filesystem call fails and with what;
  \<open>http_get\<close> is what \<open>requests.get\<close> does, a response being its status code and
  its \<open>response.text\<close>, the body as \<open>requests\<close> decoded it (the decoding itself
  is the library's and is not part of the model); \<open>process\<close> is the exit status of a
  child process, or the exception that kept it from starting; \<open>cpe_str\<close> is the text
  of the \<open>CalledProcessError\<close> that \<open>subprocess.run(..., check=True)\<close> raises.
\<close>

datatype fs_call = Makedirs string | Chdir string | OpenWrite string

datatype http_result = Response int string | NoResponse exn

datatype proc_result = Exited int | NotStarted exn

record host =
  os_nt :: bool
  lib_join :: "string \<Rightarrow> string \<Rightarrow> string"
  os_error :: "fs_call \<Rightarrow> exn option"
  venv_error :: "string \<Rightarrow> exn option"
  http_get :: "string \<Rightarrow> http_result"
  process :: "string list \<Rightarrow> proc_result"
  cpe_str :: "string list \<Rightarrow> int \<Rightarrow> string"

text \<open>The calls that leave the process, in the order they are made.\<close>

datatype call = HttpGet string | VenvCreate string | SubprocessRun "string list"

text \<open>
  The fields of \<open>ProjectSetupApp\<close> the setup reads and writes, the widgets it touches
  (the console, the progress bar, the two buttons, the warning boxes shown), and the
  filesystem. A file or directory is named by the working directory and the path the
  program passed, which identifies it within one run of the setup. The content of a
  file is the text the program wrote to it; the bytes this puts on disk are
  \<open>bytes_on_disk\<close> below. What \<open>venv\<close>, \<open>git\<close> or \<open>pip\<close> put on disk is not
  recorded, beyond the directory of the virtual environment.
\<close>

record state =
  project_name :: string
  project_type :: int
  dirs :: "(string \<times> string) set"
  files :: "string \<times> string \<rightharpoonup> string"
  cwd :: string
  output_text :: "string list"
  progress_bar :: int
  create_enabled :: bool
  cancel_enabled :: bool
  warnings :: "(string \<times> string) list"
  calls :: "call list"

type_synonym action = "state \<Rightarrow> (exn + unit) \<times> state"

definition raise :: "exn \<Rightarrow> action" where
  "raise e s = (Inl e, s)"

definition skip :: action where
  "skip s = (Inr (), s)"

text \<open>Statements one after the other: the first exception ends the sequence.\<close>

fun do_all :: "action list \<Rightarrow> action" where
  "do_all [] s = (Inr (), s)"
| "do_all (m # ms) s = (case m s of (Inl e, s') \<Rightarrow> (Inl e, s') | (Inr u, s') \<Rightarrow> do_all ms s')"

text \<open>
  \<open>try: m except ...\<close>: the handler answers \<open>None\<close> for an exception no clause
  matches, which then propagates.
\<close>

definition try_except :: "action \<Rightarrow> (exn \<Rightarrow> action option) \<Rightarrow> action" where
  "try_except m handler s =
     (case m s of
        (Inl e, s') \<Rightarrow> (case handler e of Some k \<Rightarrow> k s' | None \<Rightarrow> (Inl e, s'))
      | (Inr u, s') \<Rightarrow> (Inr u, s'))"

subsection \<open>Constants and paths\<close>

definition BASE_PATH :: string where
  "BASE_PATH = ''D:'' @ backslash @ ''eora''"

definition VSCODE_PATH :: string where
  "VSCODE_PATH = ''C:'' @ backslash @ ''Program Files'' @ backslash
     @ ''Microsoft VS Code'' @ backslash @ ''Code.exe''"

definition os_sep :: "host \<Rightarrow> string" where
  "os_sep h = (if os_nt h then backslash else ''/'')"

text \<open>
  \<open>os.path.join(a, b)\<close>. On two non-empty names without separator or colon both
  \<open>ntpath\<close> and \<open>posixpath\<close> return \<open>a + sep + b\<close>; on anything else (a drive, a
  root, a name typed by the user) the result is the library's, taken from the host.
\<close>

definition plain :: "string \<Rightarrow> bool" where
  "plain a = (a \<noteq> [] \<and> set a \<inter> {CHR ''/'', CHR 0x5C, CHR '':''} = {})"

definition os_path_join :: "host \<Rightarrow> string \<Rightarrow> string \<Rightarrow> string" where
  "os_path_join h a b = (if plain a \<and> plain b then a @ os_sep h @ b else lib_join h a b)"

subsection \<open>Signals and widgets\<close>

text \<open>\<open>output_signal.emit(text)\<close>, delivered to \<open>append_output\<close>.\<close>

definition emit :: "string \<Rightarrow> action" where
  "emit text s = (Inr (), s\<lparr>output_text := output_text s @ [text]\<rparr>)"

text \<open>
  \<open>progress_signal.emit(int((current_step / total_steps) * 100))\<close> with
  \<open>total_steps = 9\<close>, delivered to \<open>update_progress\<close>. For the steps 1 to 8 the
  quotient is far from a whole number, so the truncation is the integer division.
\<close>

definition percent :: "int \<Rightarrow> int" where
  "percent current_step = (current_step * 100) div 9"

definition progress_emit :: "int \<Rightarrow> action" where
  "progress_emit v s = (Inr (), s\<lparr>progress_bar := v\<rparr>)"

definition set_buttons :: "bool \<Rightarrow> action" where
  "set_buttons b s = (Inr (), s\<lparr>create_enabled := b, cancel_enabled := b\<rparr>)"

subsection \<open>Filesystem, network and processes\<close>

definition path_exists :: "state \<Rightarrow> string \<Rightarrow> bool" where
  "path_exists s p = ((cwd s, p) \<in> dirs s \<or> (cwd s, p) \<in> dom (files s))"

text \<open>
  \<open>os.makedirs(p)\<close> and \<open>os.makedirs(p, exist_ok=True)\<close>: whether the call fails is
  the host's answer; the directory named is recorded, its parents are not.
\<close>

definition makedirs :: "host \<Rightarrow> string \<Rightarrow> action" where
  "makedirs h p s =
     (case os_error h (Makedirs p) of
        Some e \<Rightarrow> (Inl e, s)
      | None \<Rightarrow> (Inr (), s\<lparr>dirs := insert (cwd s, p) (dirs s)\<rparr>))"

definition chdir :: "host \<Rightarrow> string \<Rightarrow> action" where
  "chdir h p s =
     (case os_error h (Chdir p) of
        Some e \<Rightarrow> (Inl e, s)
      | None \<Rightarrow> (Inr (), s\<lparr>cwd := p\<rparr>))"

text \<open>\<open>with open(p, "w", encoding="utf-8") as f: f.write(text)\<close>.\<close>

definition open_write :: "host \<Rightarrow> string \<Rightarrow> string \<Rightarrow> action" where
  "open_write h p text s =
     (case os_error h (OpenWrite p) of
        Some e \<Rightarrow> (Inl e, s)
      | None \<Rightarrow> (Inr (), s\<lparr>files := (files s)((cwd s, p) \<mapsto> text)\<rparr>))"

text \<open>
  The bytes such a file holds. The file is opened in text mode with the default
  \<open>newline=None\<close>, so every line feed of the text is written as \<open>os.linesep\<close>:
  carriage return and line feed where \<open>os.name\<close> is \<open>nt\<close>, the line feed itself
  elsewhere. The encoding is UTF-8, which the strings of the model already are.
\<close>

fun crlf :: "string \<Rightarrow> string" where
  "crlf [] = []"
| "crlf (c # cs) = (if c = CHR ''\<newline>'' then CHR 0x0D # c # crlf cs else c # crlf cs)"

definition text_mode_bytes :: "host \<Rightarrow> string \<Rightarrow> string" where
  "text_mode_bytes h text = (if os_nt h then crlf text else text)"

definition bytes_on_disk :: "host \<Rightarrow> state \<Rightarrow> string \<times> string \<Rightarrow> string option" where
  "bytes_on_disk h s k = map_option (text_mode_bytes h) (files s k)"

text \<open>\<open>venv.create(venv_dir, with_pip=True)\<close>.\<close>

definition venv_create :: "host \<Rightarrow> string \<Rightarrow> action" where
  "venv_create h d s =
     (let s1 = s\<lparr>calls := calls s @ [VenvCreate d]\<rparr> in
      case venv_error h d of
        Some e \<Rightarrow> (Inl e, s1)
      | None \<Rightarrow> (Inr (), s1\<lparr>dirs := insert (cwd s1, d) (dirs s1)\<rparr>))"

text \<open>\<open>subprocess.run(cmd, check=True)\<close>.\<close>

definition subprocess_run :: "host \<Rightarrow> string list \<Rightarrow> action" where
  "subprocess_run h cmd s =
     (let s1 = s\<lparr>calls := calls s @ [SubprocessRun cmd]\<rparr> in
      case process h cmd of
        Exited n \<Rightarrow>
          if n = 0 then (Inr (), s1) else (Inl (Raised CalledProcessError (cpe_str h cmd n)), s1)
      | NotStarted e \<Rightarrow> (Inl e, s1))"

section \<open>The setup steps\<close>

definition gitignore_url :: string where
  "gitignore_url = ''https://raw.githubusercontent.com/github/gitignore/main/Python.gitignore''"

definition download_gitignore :: "host \<Rightarrow> action" where
  "download_gitignore h s =
     (let s1 = s\<lparr>calls := calls s @ [HttpGet gitignore_url]\<rparr> in
      case http_get h gitignore_url of
        NoResponse e \<Rightarrow> (Inl e, s1)
      | Response status_code text \<Rightarrow>
          if status_code = 200
          then do_all [open_write h ''.gitignore'' text,
                       emit ''SUCCESS: .gitignore file downloaded.''] s1
          else raise (Raised Exception ''ERROR: Failed to download .gitignore file.'') s1)"

definition init_git :: "host \<Rightarrow> action" where
  "init_git h =
     do_all [subprocess_run h [''git'', ''init''],
             emit ''SUCCESS: Git repository initialized.'']"

definition ruff_config :: string where
  \<open>ruff_config =
     ''[tool.ruff]\<newline>'' @ ''line-length = 88\<newline>''
     @ ''select = ["E", "F", "W", "B", "C"]\<newline>'' @ ''ignore = []\<newline>''\<close>

definition create_ruff_config :: "host \<Rightarrow> action" where
  "create_ruff_config h =
     do_all [open_write h ''ruff.toml'' ruff_config,
             emit ''SUCCESS: ruff.toml file created.'']"

subsection \<open>README, Docker files and requirements\<close>

text \<open>
  \<open>create_readme\<close> builds the text in three statements: the part up to the heading
  of the container section, the \<open>docker run\<close> line chosen by looking for a marker in
  the run command, and the closing part.
\<close>

definition readme_head :: "string \<Rightarrow> string \<Rightarrow> string" where
  "readme_head name run_command =
     ''# '' @ name @ ''\<newline>\<newline>''
     @ ''## How to Run\<newline>''
     @ ''\<newline>''
     @ run_command @ ''\<newline>''
     @ ''\<newline>''
     @ ''## How to Run Tests\<newline>''
     @ ''\<newline>''
     @ ''pytest\<newline>''
     @ ''\<newline>''
     @ ''## Docker Usage\<newline>''
     @ ''### Build Docker Image\<newline>''
     @ ''\<newline>''
     @ ''docker build -t '' @ name @ '' .\<newline>''
     @ ''\<newline>''
     @ ''### Run Docker Container\<newline>''
     @ ''\<newline>''"

definition docker_run_line :: "string \<Rightarrow> string \<Rightarrow> string" where
  "docker_run_line name run_command =
     (if py_in ''uvicorn'' run_command then ''docker run -p 8000:8000 '' @ name @ ''\<newline>''
      else if py_in ''jupyter'' run_command then ''docker run -p 8888:8888 '' @ name @ ''\<newline>''
      else ''docker run --rm '' @ name @ ''\<newline>'')"

definition readme_tail :: string where
  "readme_tail =
     ''\<newline>'' @ ''## Docker Compose Usage\<newline>'' @ ''\<newline>''
     @ ''docker-compose up --build\<newline>'' @ ''\<newline>''"

definition readme_content :: "string \<Rightarrow> string \<Rightarrow> string" where
  "readme_content name run_command =
     readme_head name run_command @ docker_run_line name run_command @ readme_tail"

definition create_readme :: "host \<Rightarrow> string \<Rightarrow> action" where
  "create_readme h run_command s =
     open_write h ''README.md'' (readme_content (project_name s) run_command) s"

text \<open>An optional string inside an f-string, and its truth value.\<close>

definition format_opt :: "string option \<Rightarrow> string" where
  "format_opt command = (case command of None \<Rightarrow> ''None'' | Some c \<Rightarrow> c)"

definition truthy :: "string option \<Rightarrow> bool" where
  "truthy command = (case command of None \<Rightarrow> False | Some c \<Rightarrow> c \<noteq> [])"

definition quoted :: "string \<Rightarrow> string" where
  \<open>quoted arg = ''"'' @ arg @ ''"''\<close>

definition dockerfile_content :: "string option \<Rightarrow> bool \<Rightarrow> string" where
  \<open>dockerfile_content command is_data_project =
     (if is_data_project
      then ''FROM jupyter/base-notebook:python-3.11.6\<newline>''
           @ ''COPY notebooks/ /home/jovyan/work/\<newline>''
      else (''FROM python:3.9-slim\<newline>''
            @ ''WORKDIR /app\<newline>''
            @ ''COPY requirements.txt .\<newline>''
            @ ''RUN pip install --no-cache-dir -r requirements.txt\<newline>''
            @ ''COPY . .\<newline>'')
           @ (if truthy command
              then ''CMD ['' @ join '', '' (map quoted (split (format_opt command))) @ '']\<newline>''
              else ''CMD ["python", "app/main.py"]\<newline>''))\<close>

definition docker_compose_content :: "string option \<Rightarrow> bool \<Rightarrow> bool \<Rightarrow> string" where
  \<open>docker_compose_content command is_data_project is_fastapi =
     (if is_data_project
      then ''services:\<newline>''
           @ ''  jupyter:\<newline>''
           @ ''    build: .\<newline>''
           @ ''    ports:\<newline>''
           @ ''      - "8888:8888"\<newline>''
           @ ''    volumes:\<newline>''
           @ ''      - ./notebooks:/home/jovyan/work\<newline>''
      else (''services:\<newline>'' @ ''  app:\<newline>'' @ ''    build: .\<newline>'')
           @ (if is_fastapi then ''    ports:\<newline>'' @ ''      - "8000:8000"\<newline>'' else [])
           @ ''    command: '' @ format_opt command @ ''\<newline>'')\<close>

definition create_docker_files :: "host \<Rightarrow> string option \<Rightarrow> bool \<Rightarrow> bool \<Rightarrow> action" where
  "create_docker_files h command is_data_project is_fastapi =
     do_all [open_write h ''Dockerfile'' (dockerfile_content command is_data_project),
             open_write h ''docker-compose.yml''
               (docker_compose_content command is_data_project is_fastapi)]"

definition requirements_content :: "string list \<Rightarrow> string" where
  "requirements_content packages = join ''\<newline>'' packages @ ''\<newline>''"

definition create_requirements :: "host \<Rightarrow> string list \<Rightarrow> action" where
  "create_requirements h packages =
     open_write h ''requirements.txt'' (requirements_content packages)"

subsection \<open>The three templates\<close>

definition basic_packages :: "string list" where
  "basic_packages =
     [''pytest'', ''pytest-cov'', ''pytest-mock'', ''pytest-xdist'', ''pytest-asyncio'',
      ''pytest-profiling'']"

definition data_analytics_packages :: "string list" where
  "data_analytics_packages =
     [''jupyter'', ''pytest'', ''pytest-cov'', ''pytest-mock'', ''pytest-xdist'',
      ''pytest-asyncio'', ''pytest-profiling'']"

definition fastapi_packages :: "string list" where
  "fastapi_packages =
     [''fastapi'', ''uvicorn'', ''pytest'', ''pytest-cov'', ''pytest-mock'', ''pytest-xdist'',
      ''pytest-asyncio'', ''pytest-profiling'', ''httpx'']"

definition test_true_content :: string where
  "test_true_content = ''def test_true():\<newline>'' @ ''    assert True\<newline>''"

definition setup_basic_python_project :: "host \<Rightarrow> action" where
  \<open>setup_basic_python_project h =
     do_all [makedirs h ''app'',
             makedirs h ''tests'',
             open_write h (os_path_join h ''app'' ''main.py'') ''print("Hello, World!")\<newline>'',
             open_write h (os_path_join h ''tests'' ''test_basic.py'') test_true_content,
             create_readme h ''python app/main.py'',
             create_docker_files h (Some ''python app/main.py'') False False,
             create_requirements h basic_packages,
             emit ''SUCCESS: Basic Python project set up.'']\<close>

text \<open>What \<open>json.dump(notebook_content, f)\<close> writes.\<close>

definition notebook_json :: string where
  \<open>notebook_json =
     ''{"cells": [{"cell_type": "code", "execution_count": null, "metadata": {}, ''
     @ ''"outputs": [], "source": ["print('' @ backslash @ ''"Hello, World!'' @ backslash
     @ ''")"]}], "metadata": {}, "nbformat": 4, "nbformat_minor": 5}''\<close>

definition setup_data_analytics_project :: "host \<Rightarrow> action" where
  "setup_data_analytics_project h =
     do_all [makedirs h ''notebooks'',
             makedirs h ''tests'',
             open_write h (os_path_join h ''notebooks'' ''analysis.ipynb'') notebook_json,
             open_write h (os_path_join h ''tests'' ''test_notebook.py'') test_true_content,
             create_readme h ''jupyter notebook notebooks/analysis.ipynb'',
             create_docker_files h None True False,
             create_requirements h data_analytics_packages,
             emit ''SUCCESS: Data analytics project set up.'']"

definition fastapi_main_py :: string where
  \<open>fastapi_main_py =
     ''from fastapi import FastAPI\<newline>''
     @ ''\<newline>''
     @ ''app = FastAPI()\<newline>''
     @ ''\<newline>''
     @ ''@app.get("/")\<newline>''
     @ ''async def read_root():\<newline>''
     @ ''    return {"Hello": "World"}\<newline>''\<close>

definition fastapi_test_app :: string where
  \<open>fastapi_test_app =
     ''import pytest\<newline>''
     @ ''from httpx import AsyncClient\<newline>''
     @ ''from app.main import app\<newline>''
     @ ''\<newline>''
     @ ''@pytest.mark.asyncio\<newline>''
     @ ''async def test_read_root():\<newline>''
     @ ''    async with AsyncClient(app=app, base_url="http://test") as ac:\<newline>''
     @ ''        response = await ac.get("/")\<newline>''
     @ ''    assert response.status_code == 200\<newline>''
     @ ''    assert response.json() == {"Hello": "World"}\<newline>''\<close>

definition setup_fastapi_project :: "host \<Rightarrow> action" where
  "setup_fastapi_project h =
     do_all [makedirs h ''app'',
             makedirs h ''tests'',
             open_write h (os_path_join h ''app'' ''main.py'') fastapi_main_py,
             open_write h (os_path_join h ''tests'' ''test_app.py'') fastapi_test_app,
             create_readme h ''uvicorn app.main:app --reload'',
             create_docker_files h (Some ''uvicorn app.main:app --host 0.0.0.0 --port 8000'')
               False True,
             create_requirements h fastapi_packages,
             emit ''SUCCESS: FastAPI project set up.'']"

subsection \<open>Editor settings, dependencies, editor launch\<close>

text \<open>
  What \<open>json.dump(settings, f, indent=4)\<close> writes. The two paths hold a backslash on
  Windows, which JSON writes doubled.
\<close>

definition settings_json :: "host \<Rightarrow> string" where
  \<open>settings_json h =
     ''{\<newline>''
     @ ''    "python.pythonPath": "''
     @ (if os_nt h then ''.venv'' @ backslash @ backslash @ ''Scripts'' @ backslash @ backslash
                        @ ''python.exe''
        else ''.venv/bin/python'')
     @ ''",\<newline>''
     @ ''    "editor.formatOnSave": true,\<newline>''
     @ ''    "python.linting.enabled": true,\<newline>''
     @ ''    "python.linting.ruffEnabled": true,\<newline>''
     @ ''    "python.linting.ruffPath": "''
     @ (if os_nt h then ''.venv'' @ backslash @ backslash @ ''Scripts'' @ backslash @ backslash
                        @ ''ruff.exe''
        else ''.venv/bin/ruff'')
     @ ''",\<newline>''
     @ ''    "python.testing.pytestEnabled": true,\<newline>''
     @ ''    "python.testing.pytestArgs": [\<newline>''
     @ ''        "tests"\<newline>''
     @ ''    ]\<newline>''
     @ ''}''\<close>

definition setup_vscode :: "host \<Rightarrow> action" where
  "setup_vscode h =
     (let vscode_dir = ''.vscode'' in
      do_all [makedirs h vscode_dir,
              open_write h (os_path_join h vscode_dir ''settings.json'') (settings_json h)])"

definition pip_executable :: "host \<Rightarrow> string \<Rightarrow> string" where
  "pip_executable h venv_dir =
     (if os_nt h then os_path_join h (os_path_join h venv_dir ''Scripts'') ''pip.exe''
      else os_path_join h (os_path_join h venv_dir ''bin'') ''pip'')"

definition install_dependencies :: "host \<Rightarrow> string \<Rightarrow> action" where
  "install_dependencies h venv_dir =
     do_all [emit ''INFO: Installing dependencies...'',
             try_except
               (do_all [subprocess_run h
                          [pip_executable h venv_dir, ''install'', ''-r'', ''requirements.txt''],
                        emit ''SUCCESS: Dependencies installed.''])
               (\<lambda>e. case e of
                  Raised CalledProcessError msg \<Rightarrow>
                    Some (emit (''ERROR: Failed to install dependencies: '' @ msg))
                | _ \<Rightarrow> None)]"

definition open_in_vscode :: "host \<Rightarrow> string \<Rightarrow> action" where
  "open_in_vscode h project_dir =
     (let code_command = [VSCODE_PATH, project_dir] in
      try_except
        (do_all [subprocess_run h code_command,
                 emit ''SUCCESS: Project opened in VS Code.''])
        (\<lambda>e. case e of
           Raised FileNotFoundError msg \<Rightarrow>
             Some (emit ''ERROR: Could not find VS Code. Ensure that the path is correct.'')
         | Raised CalledProcessError msg \<Rightarrow>
             Some (emit (''ERROR: Failed to open VS Code: '' @ msg))
         | _ \<Rightarrow> None))"

section \<open>The pipeline\<close>

text \<open>The first statement of the \<open>try\<close>: the project directory must not exist yet.\<close>

definition check_project_dir :: "string \<Rightarrow> action" where
  \<open>check_project_dir project_dir s =
     (if path_exists s project_dir
      then raise (Raised FileExistsError
             (''ERROR: Project directory "'' @ project_dir @ ''" already exists.'')) s
      else skip s)\<close>

text \<open>The choice of the template by \<open>project_type\<close>.\<close>

definition setup_by_type :: "host \<Rightarrow> action" where
  "setup_by_type h s =
     (if project_type s = 1 then setup_basic_python_project h s
      else if project_type s = 2 then setup_data_analytics_project h s
      else if project_type s = 3 then setup_fastapi_project h s
      else raise (Raised ValueError ''ERROR: Invalid project type selected.'') s)"

text \<open>
  The body of the \<open>try\<close> of \<open>run_setup\<close>: \<open>Inl e\<close> when the exception \<open>e\<close> leaves
  it, \<open>Inr ()\<close> when it runs to its end.
\<close>

definition run_setup_try :: "host \<Rightarrow> action" where
  \<open>run_setup_try h s =
     (let project_dir = os_path_join h BASE_PATH (project_name s);
          venv_dir = os_path_join h project_dir ''.venv'' in
      do_all
        [check_project_dir project_dir,
         makedirs h project_dir,
         chdir h project_dir,
         emit (''SUCCESS: Created project directory "'' @ project_dir @ ''".''),
         progress_emit (percent 1),
         venv_create h venv_dir,
         emit ''SUCCESS: Virtual environment created.'',
         progress_emit (percent 2),
         download_gitignore h,
         progress_emit (percent 3),
         init_git h,
         progress_emit (percent 4),
         create_ruff_config h,
         progress_emit (percent 5),
         setup_by_type h,
         progress_emit (percent 6),
         setup_vscode h,
         emit ''SUCCESS: VS Code settings configured.'',
         progress_emit (percent 7),
         install_dependencies h venv_dir,
         progress_emit (percent 8),
         open_in_vscode h project_dir,
         progress_emit 100,
         set_buttons True] s)\<close>

text \<open>\<open>run_setup\<close>: the \<open>try\<close> and its \<open>except Exception as e\<close>.\<close>

definition run_setup :: "host \<Rightarrow> state \<Rightarrow> state" where
  "run_setup h s =
     (case run_setup_try h s of
        (Inl (Raised c msg), s') \<Rightarrow>
          s'\<lparr>output_text := output_text s' @ [''ERROR: '' @ msg],
             create_enabled := True, cancel_enabled := True\<rparr>
      | (Inr u, s') \<Rightarrow> s')"

text \<open>
  \<open>create_project\<close>, on the text of the name field and the index of the type box. The
  setup runs on one worker thread while the buttons are disabled; it is run here in
  place.
\<close>

definition create_project :: "host \<Rightarrow> string \<Rightarrow> int \<Rightarrow> state \<Rightarrow> state" where
  "create_project h name_input current_index s =
     (let s1 = s\<lparr>project_name := strip name_input, project_type := current_index + 1\<rparr> in
      if project_name s1 = []
      then s1\<lparr>warnings := warnings s1 @ [(''Input Error'', ''Please enter a project name.'')]\<rparr>
      else run_setup h
             (s1\<lparr>create_enabled := False, cancel_enabled := False,
                 progress_bar := 0, output_text := []\<rparr>))"

text \<open>A line of the console is an error line when the highlighter finds the level at its start.\<close>

definition error_line :: "string \<Rightarrow> bool" where
  "error_line text = prefix ''ERROR'' text"

section \<open>An example host and state\<close>

text \<open>
  A POSIX host on which every call succeeds and the download answers 200, and a fresh
  application started in \<open>/home/u\<close> with nothing on disk.
\<close>

definition good_host :: host where
  "good_host =
     \<lparr>os_nt = False,
      lib_join = (\<lambda>a b. a @ ''/'' @ b),
      os_error = (\<lambda>c. None),
      venv_error = (\<lambda>d. None),
      http_get = (\<lambda>url. Response 200 ''__pycache__/\<newline>''),
      process = (\<lambda>cmd. Exited 0),
      cpe_str = (\<lambda>cmd n. ''Command returned non-zero exit status.'')\<rparr>"

definition init_state :: state where
  "init_state =
     \<lparr>project_name = [], project_type = 0, dirs = {}, files = Map.empty, cwd = ''/home/u'',
      output_text = [], progress_bar = 0, create_enabled = True, cancel_enabled = True,
      warnings = [], calls = []\<rparr>"

section \<open>Notions used in the statements and proofs\<close>

text \<open>A step preserves an observation of the state when it never changes it.\<close>

definition preserves :: "(state \<Rightarrow> 'a) \<Rightarrow> action \<Rightarrow> bool" where
  "preserves f m = (\<forall>s. f (snd (m s)) = f s)"

text \<open>
  The statements of \<open>run_setup_try\<close> from the dependency installer, from the editor
  settings, from the template and from the download on, for given project and
  environment directories.
\<close>

definition steps_8_to_9 :: "host \<Rightarrow> string \<Rightarrow> string \<Rightarrow> action list" where
  "steps_8_to_9 h pd vd =
     [install_dependencies h vd, progress_emit (percent 8), open_in_vscode h pd,
      progress_emit 100, set_buttons True]"

definition steps_7_to_9 :: "host \<Rightarrow> string \<Rightarrow> string \<Rightarrow> action list" where
  "steps_7_to_9 h pd vd =
     [setup_vscode h, emit ''SUCCESS: VS Code settings configured.'', progress_emit (percent 7)]
     @ steps_8_to_9 h pd vd"

definition steps_6_to_9 :: "host \<Rightarrow> string \<Rightarrow> string \<Rightarrow> action list" where
  "steps_6_to_9 h pd vd = [setup_by_type h, progress_emit (percent 6)] @ steps_7_to_9 h pd vd"

definition steps_3_to_9 :: "host \<Rightarrow> string \<Rightarrow> string \<Rightarrow> action list" where
  "steps_3_to_9 h pd vd =
     [download_gitignore h, progress_emit (percent 3), init_git h, progress_emit (percent 4),
      create_ruff_config h, progress_emit (percent 5)] @ steps_6_to_9 h pd vd"

text \<open>
  The project directory and the directory of the virtual environment of a run, and the
  line that reports the creation of the former.
\<close>

definition project_dir_of :: "host \<Rightarrow> state \<Rightarrow> string" where
  "project_dir_of h s = os_path_join h BASE_PATH (project_name s)"

definition venv_dir_of :: "host \<Rightarrow> state \<Rightarrow> string" where
  "venv_dir_of h s = os_path_join h (project_dir_of h s) ''.venv''"

definition created_line :: "string \<Rightarrow> string" where
  \<open>created_line pd = ''SUCCESS: Created project directory "'' @ pd @ ''".''\<close>

text \<open>The state after the project directory and the virtual environment were made.\<close>

definition scaffolded :: "host \<Rightarrow> state \<Rightarrow> state" where
  "scaffolded h s =
     s\<lparr>dirs := insert (project_dir_of h s, venv_dir_of h s)
                (insert (cwd s, project_dir_of h s) (dirs s)),
       cwd := project_dir_of h s,
       output_text := output_text s
          @ [created_line (project_dir_of h s), ''SUCCESS: Virtual environment created.''],
       progress_bar := percent 2,
       calls := calls s @ [VenvCreate (venv_dir_of h s)]\<rparr>"

text \<open>The state after the download, the Git initialisation and the lint configuration.\<close>

definition linted :: "host \<Rightarrow> string \<Rightarrow> state \<Rightarrow> state" where
  "linted h body s =
     s\<lparr>files := (files s)((cwd s, ''.gitignore'') \<mapsto> body, (cwd s, ''ruff.toml'') \<mapsto> ruff_config),
       output_text := output_text s
          @ [''SUCCESS: .gitignore file downloaded.'', ''SUCCESS: Git repository initialized.'',
             ''SUCCESS: ruff.toml file created.''],
       progress_bar := percent 5,
       calls := calls s @ [HttpGet gitignore_url, SubprocessRun [''git'', ''init'']]\<rparr>"

text \<open>The command line of the dependency installer.\<close>

definition pip_command :: "host \<Rightarrow> string \<Rightarrow> string list" where
  "pip_command h vd = [pip_executable h vd, ''install'', ''-r'', ''requirements.txt'']"

text \<open>The outcomes of starting the editor that \<open>open_in_vscode\<close> does not let through.\<close>

definition launch_handled :: "proc_result \<Rightarrow> bool" where
  "launch_handled r =
     (case r of
        Exited n \<Rightarrow> True
      | NotStarted (Raised c msg) \<Rightarrow> c = FileNotFoundError \<or> c = CalledProcessError)"

text \<open>
  Example states and hosts: a state where the directory of demo exists already, a host
  whose download answers 404, a request for a basic project named demo, a host whose
  disk is full when the editor settings are written, a Windows host whose download
  answers 200 with two lines of text, and a host where the package manager exits with
  status 1 and the editor is not installed.
\<close>

definition taken_state :: state where
  "taken_state =
     init_state\<lparr>project_name := ''demo'',
       dirs := {(''/home/u'', os_path_join good_host BASE_PATH ''demo'')}\<rparr>"

definition not_found_host :: host where
  "not_found_host = good_host\<lparr>http_get := (\<lambda>url. Response 404 ''404: Not Found'')\<rparr>"

definition demo_state :: state where
  "demo_state = init_state\<lparr>project_name := ''demo'', project_type := 1\<rparr>"

definition settings_fail_host :: host where
  "settings_fail_host =
     good_host\<lparr>os_error := (\<lambda>c. if c = OpenWrite ''.vscode/settings.json''
                                  then Some (Raised OSError ''[Errno 28] No space left on device'')
                                  else None)\<rparr>"

definition windows_host :: host where
  "windows_host =
     good_host\<lparr>os_nt := True,
       lib_join := (\<lambda>a b. a @ backslash @ b),
       http_get := (\<lambda>url. Response 200 ''*.pyc\<newline>.venv/\<newline>'')\<rparr>"

definition pip_fail_host :: host where
  "pip_fail_host =
     good_host\<lparr>process := (\<lambda>cmd. if cmd = [''git'', ''init''] then Exited 0
                                else if hd cmd = VSCODE_PATH then NotStarted (Raised FileNotFoundError
                                  ''[Errno 2] No such file or directory'')
                                else Exited 1)\<rparr>"

section \<open>Facts about strings\<close>










lemma strip_demo: "strip ''demo'' = ''demo''"
  by (simp add: strip_def lstrip_def rstrip_def strip_front.simps skip_one_def py_whitespace_def)

lemma strip_blank: "strip ''   '' = []"
  by (simp add: strip_def lstrip_def rstrip_def strip_front.simps skip_one_def py_whitespace_def)

section \<open>What a step leaves unchanged\<close>

lemmas step_defs = makedirs_def chdir_def open_write_def venv_create_def subprocess_run_def
  emit_def progress_emit_def set_buttons_def raise_def skip_def try_except_def

lemma preservesD: "preserves f m \<Longrightarrow> m s = (r, s') \<Longrightarrow> f s' = f s"
  by (metis preserves_def snd_conv)

lemma preserves_do_all: "list_all (preserves f) ms \<Longrightarrow> preserves f (do_all ms)"
proof (induction ms)
  case Nil
  show ?case by (simp add: preserves_def)
next
  case (Cons m ms)
  then have m: "preserves f m" and ms: "preserves f (do_all ms)" by simp_all
  show ?case
    unfolding preserves_def
  proof
    fix s
    obtain r s' where ms': "m s = (r, s')" by (cases "m s")
    have "f s' = f s" using m ms' by (rule preservesD)
    moreover have "f (snd (do_all ms s')) = f s'" using ms by (simp add: preserves_def)
    ultimately show "f (snd (do_all (m # ms) s)) = f s"
      using ms' by (cases r) simp_all
  qed
qed


lemma preserves_try_except:
  assumes "preserves f m" and "\<And>e k. handler e = Some k \<Longrightarrow> preserves f k"
  shows "preserves f (try_except m handler)"
  unfolding preserves_def
proof
  fix s
  obtain r s' where ms': "m s = (r, s')" by (cases "m s")
  have fs': "f s' = f s" using assms(1) ms' by (rule preservesD)
  show "f (snd (try_except m handler s)) = f s"
  proof (cases r)
    case (Inl e)
    show ?thesis
    proof (cases "handler e")
      case None
      then show ?thesis using ms' Inl fs' by (simp add: try_except_def)
    next
      case (Some k)
      then have "preserves f k" by (rule assms(2))
      then have "f (snd (k s')) = f s'" by (simp add: preserves_def)
      then show ?thesis using ms' Inl Some fs' by (simp add: try_except_def)
    qed
  next
    case (Inr u)
    then show ?thesis using ms' fs' by (simp add: try_except_def)
  qed
qed

named_theorems keeps_name
lemma keeps_name_prims [keeps_name]:
  "preserves project_name (emit t)"
  "preserves project_name (progress_emit v)"
  "preserves project_name (set_buttons b)"
  "preserves project_name (raise e)"
  "preserves project_name skip"
  "preserves project_name (makedirs h p)"
  "preserves project_name (chdir h p)"
  "preserves project_name (open_write h p t)"
  "preserves project_name (venv_create h p)"
  "preserves project_name (subprocess_run h cmd)"
  by (simp_all add: preserves_def step_defs Let_def split: option.splits proc_result.splits)

lemma keeps_name_check [keeps_name]: "preserves project_name (check_project_dir pd)"
  by (simp add: preserves_def check_project_dir_def raise_def skip_def)

lemma keeps_name_download [keeps_name]: "preserves project_name (download_gitignore h)"
proof -
  have "preserves project_name
      (do_all [open_write h ''.gitignore'' t, emit ''SUCCESS: .gitignore file downloaded.''])" for t
    by (rule preserves_do_all) (simp add: keeps_name)
  then show ?thesis
    by (simp add: preserves_def download_gitignore_def Let_def raise_def split: http_result.splits)
qed

lemma keeps_name_git [keeps_name]: "preserves project_name (init_git h)"
  unfolding init_git_def by (rule preserves_do_all) (simp add: keeps_name)

lemma keeps_name_ruff [keeps_name]: "preserves project_name (create_ruff_config h)"
  unfolding create_ruff_config_def by (rule preserves_do_all) (simp add: keeps_name)

lemma keeps_name_readme [keeps_name]: "preserves project_name (create_readme h rc)"
  by (simp add: preserves_def create_readme_def open_write_def split: option.splits)

lemma keeps_name_docker [keeps_name]: "preserves project_name (create_docker_files h c d f)"
  unfolding create_docker_files_def by (rule preserves_do_all) (simp add: keeps_name)

lemma keeps_name_requirements [keeps_name]: "preserves project_name (create_requirements h ps)"
  unfolding create_requirements_def by (simp add: keeps_name)

lemma keeps_name_basic [keeps_name]: "preserves project_name (setup_basic_python_project h)"
  unfolding setup_basic_python_project_def by (rule preserves_do_all) (simp add: keeps_name)

lemma keeps_name_data [keeps_name]: "preserves project_name (setup_data_analytics_project h)"
  unfolding setup_data_analytics_project_def by (rule preserves_do_all) (simp add: keeps_name)

lemma keeps_name_fastapi [keeps_name]: "preserves project_name (setup_fastapi_project h)"
  unfolding setup_fastapi_project_def by (rule preserves_do_all) (simp add: keeps_name)

lemma keeps_name_by_type [keeps_name]: "preserves project_name (setup_by_type h)"
  using keeps_name_basic [of h] keeps_name_data [of h] keeps_name_fastapi [of h]
  by (simp add: preserves_def setup_by_type_def raise_def)

lemma keeps_name_vscode [keeps_name]: "preserves project_name (setup_vscode h)"
  unfolding setup_vscode_def Let_def by (rule preserves_do_all) (simp add: keeps_name)

lemma keeps_name_install [keeps_name]: "preserves project_name (install_dependencies h vd)"
proof -
  have "preserves project_name
     (try_except
        (do_all [subprocess_run h [pip_executable h vd, ''install'', ''-r'', ''requirements.txt''],
                 emit ''SUCCESS: Dependencies installed.''])
        (\<lambda>e. case e of
           Raised CalledProcessError msg \<Rightarrow>
             Some (emit (''ERROR: Failed to install dependencies: '' @ msg))
         | _ \<Rightarrow> None))"
  proof (rule preserves_try_except)
    show "preserves project_name
       (do_all [subprocess_run h [pip_executable h vd, ''install'', ''-r'', ''requirements.txt''],
                emit ''SUCCESS: Dependencies installed.''])"
      by (rule preserves_do_all) (simp add: keeps_name)
  qed (auto simp: keeps_name split: exn.splits exn_class.splits)
  then show ?thesis
    unfolding install_dependencies_def by - (rule preserves_do_all, simp add: keeps_name)
qed

lemma keeps_name_open [keeps_name]: "preserves project_name (open_in_vscode h pd)"
  unfolding open_in_vscode_def Let_def
proof (rule preserves_try_except)
  show "preserves project_name
     (do_all [subprocess_run h [VSCODE_PATH, pd], emit ''SUCCESS: Project opened in VS Code.''])"
    by (rule preserves_do_all) (simp add: keeps_name)
qed (auto simp: keeps_name split: exn.splits exn_class.splits)



section \<open>The pipeline step by step\<close>

lemma same_state: "s = s' \<Longrightarrow> do_all ms s = do_all ms s'"
  by simp

lemma run_setup_try_steps:
  "run_setup_try h s =
     do_all ([check_project_dir (project_dir_of h s), makedirs h (project_dir_of h s),
              chdir h (project_dir_of h s), emit (created_line (project_dir_of h s)),
              progress_emit (percent 1), venv_create h (venv_dir_of h s),
              emit ''SUCCESS: Virtual environment created.'', progress_emit (percent 2)]
             @ steps_3_to_9 h (project_dir_of h s) (venv_dir_of h s)) s"
  by (simp add: run_setup_try_def Let_def steps_3_to_9_def steps_6_to_9_def steps_7_to_9_def
      steps_8_to_9_def project_dir_of_def venv_dir_of_def created_line_def)

lemma reach_fetch:
  assumes "\<not> path_exists s (project_dir_of h s)"
    and "os_error h (Makedirs (project_dir_of h s)) = None"
    and "os_error h (Chdir (project_dir_of h s)) = None"
    and "venv_error h (venv_dir_of h s) = None"
  shows "run_setup_try h s
         = do_all (steps_3_to_9 h (project_dir_of h s) (venv_dir_of h s)) (scaffolded h s)"
proof -
  have "run_setup_try h s = do_all (steps_3_to_9 h (project_dir_of h s) (venv_dir_of h s))
      (s\<lparr>cwd := project_dir_of h s,
         calls := calls s @ [VenvCreate (venv_dir_of h s)],
         dirs := insert (project_dir_of h s, venv_dir_of h s)
                  (insert (cwd s, project_dir_of h s) (dirs s)),
         output_text := output_text s
           @ [created_line (project_dir_of h s), ''SUCCESS: Virtual environment created.''],
         progress_bar := percent 2\<rparr>)"
    using assms
    by (simp add: run_setup_try_steps check_project_dir_def makedirs_def chdir_def emit_def
        progress_emit_def venv_create_def skip_def Let_def)
  also have "s\<lparr>cwd := project_dir_of h s,
         calls := calls s @ [VenvCreate (venv_dir_of h s)],
         dirs := insert (project_dir_of h s, venv_dir_of h s)
                  (insert (cwd s, project_dir_of h s) (dirs s)),
         output_text := output_text s
           @ [created_line (project_dir_of h s), ''SUCCESS: Virtual environment created.''],
         progress_bar := percent 2\<rparr> = scaffolded h s"
    by (simp add: scaffolded_def)
  finally show ?thesis .
qed

lemma reach_template:
  assumes "http_get h gitignore_url = Response 200 body"
    and "os_error h (OpenWrite ''.gitignore'') = None"
    and "process h [''git'', ''init''] = Exited 0"
    and "os_error h (OpenWrite ''ruff.toml'') = None"
  shows "do_all (steps_3_to_9 h pd vd) s = do_all (steps_6_to_9 h pd vd) (linted h body s)"
  using assms
  apply (simp add: steps_3_to_9_def download_gitignore_def init_git_def create_ruff_config_def
      open_write_def emit_def progress_emit_def subprocess_run_def Let_def)
  apply (rule same_state)
  apply (simp add: linted_def)
  done

lemma plain_joins:
  "os_path_join h ''app'' ''main.py'' = ''app'' @ os_sep h @ ''main.py''"
  "os_path_join h ''tests'' ''test_basic.py'' = ''tests'' @ os_sep h @ ''test_basic.py''"
  "os_path_join h ''notebooks'' ''analysis.ipynb'' = ''notebooks'' @ os_sep h @ ''analysis.ipynb''"
  "os_path_join h ''tests'' ''test_notebook.py'' = ''tests'' @ os_sep h @ ''test_notebook.py''"
  "os_path_join h ''tests'' ''test_app.py'' = ''tests'' @ os_sep h @ ''test_app.py''"
  "os_path_join h ''.vscode'' ''settings.json'' = ''.vscode'' @ os_sep h @ ''settings.json''"
  by (simp_all add: os_path_join_def plain_def)

lemma basic_ok:
  assumes ok: "\<And>c. c \<noteq> OpenWrite (os_path_join h ''.vscode'' ''settings.json'')
                 \<Longrightarrow> os_error h c = None"
  shows \<open>setup_basic_python_project h s =
    (Inr (), s\<lparr>dirs := insert (cwd s, ''tests'') (insert (cwd s, ''app'') (dirs s)),
       files := (files s)
          ((cwd s, ''app'' @ os_sep h @ ''main.py'') \<mapsto> ''print("Hello, World!")\<newline>'',
           (cwd s, ''tests'' @ os_sep h @ ''test_basic.py'') \<mapsto> test_true_content,
           (cwd s, ''README.md'') \<mapsto> readme_content (project_name s) ''python app/main.py'',
           (cwd s, ''Dockerfile'') \<mapsto> dockerfile_content (Some ''python app/main.py'') False,
           (cwd s, ''docker-compose.yml'') \<mapsto>
              docker_compose_content (Some ''python app/main.py'') False False,
           (cwd s, ''requirements.txt'') \<mapsto> requirements_content basic_packages),
       output_text := output_text s @ [''SUCCESS: Basic Python project set up.'']\<rparr>)\<close>
  by (simp add: setup_basic_python_project_def makedirs_def open_write_def emit_def ok
      create_readme_def create_docker_files_def create_requirements_def plain_joins)

lemma data_ok:
  assumes ok: "\<And>c. c \<noteq> OpenWrite (os_path_join h ''.vscode'' ''settings.json'')
                 \<Longrightarrow> os_error h c = None"
  shows \<open>setup_data_analytics_project h s =
    (Inr (), s\<lparr>dirs := insert (cwd s, ''tests'') (insert (cwd s, ''notebooks'') (dirs s)),
       files := (files s)
          ((cwd s, ''notebooks'' @ os_sep h @ ''analysis.ipynb'') \<mapsto> notebook_json,
           (cwd s, ''tests'' @ os_sep h @ ''test_notebook.py'') \<mapsto> test_true_content,
           (cwd s, ''README.md'') \<mapsto>
              readme_content (project_name s) ''jupyter notebook notebooks/analysis.ipynb'',
           (cwd s, ''Dockerfile'') \<mapsto> dockerfile_content None True,
           (cwd s, ''docker-compose.yml'') \<mapsto> docker_compose_content None True False,
           (cwd s, ''requirements.txt'') \<mapsto> requirements_content data_analytics_packages),
       output_text := output_text s @ [''SUCCESS: Data analytics project set up.'']\<rparr>)\<close>
  by (simp add: setup_data_analytics_project_def makedirs_def open_write_def emit_def ok
      create_readme_def create_docker_files_def create_requirements_def plain_joins)

lemma fastapi_ok:
  assumes ok: "\<And>c. c \<noteq> OpenWrite (os_path_join h ''.vscode'' ''settings.json'')
                 \<Longrightarrow> os_error h c = None"
  shows \<open>setup_fastapi_project h s =
    (Inr (), s\<lparr>dirs := insert (cwd s, ''tests'') (insert (cwd s, ''app'') (dirs s)),
       files := (files s)
          ((cwd s, ''app'' @ os_sep h @ ''main.py'') \<mapsto> fastapi_main_py,
           (cwd s, ''tests'' @ os_sep h @ ''test_app.py'') \<mapsto> fastapi_test_app,
           (cwd s, ''README.md'') \<mapsto>
              readme_content (project_name s) ''uvicorn app.main:app --reload'',
           (cwd s, ''Dockerfile'') \<mapsto>
              dockerfile_content (Some ''uvicorn app.main:app --host 0.0.0.0 --port 8000'') False,
           (cwd s, ''docker-compose.yml'') \<mapsto>
              docker_compose_content (Some ''uvicorn app.main:app --host 0.0.0.0 --port 8000'')
                False True,
           (cwd s, ''requirements.txt'') \<mapsto> requirements_content fastapi_packages),
       output_text := output_text s @ [''SUCCESS: FastAPI project set up.'']\<rparr>)\<close>
  by (simp add: setup_fastapi_project_def makedirs_def open_write_def emit_def ok
      create_readme_def create_docker_files_def create_requirements_def plain_joins)

lemma by_type_ok:
  assumes ok: "\<And>c. c \<noteq> OpenWrite (os_path_join h ''.vscode'' ''settings.json'')
                 \<Longrightarrow> os_error h c = None"
    and ty: "project_type s = 1 \<or> project_type s = 2 \<or> project_type s = 3"
  shows "\<exists>ds fm line. setup_by_type h s
           = (Inr (), s\<lparr>dirs := ds, files := fm, output_text := output_text s @ [line]\<rparr>)"
proof -
  consider "project_type s = 1" | "project_type s = 2" | "project_type s = 3"
    using ty by blast
  then show ?thesis
  proof cases
    case 1
    then have eq: "setup_by_type h s = setup_basic_python_project h s"
      by (simp add: setup_by_type_def)
    from basic_ok [of h s, OF ok] show ?thesis unfolding eq by blast
  next
    case 2
    then have eq: "setup_by_type h s = setup_data_analytics_project h s"
      by (simp add: setup_by_type_def)
    from data_ok [of h s, OF ok] show ?thesis unfolding eq by blast
  next
    case 3
    then have eq: "setup_by_type h s = setup_fastapi_project h s"
      by (simp add: setup_by_type_def)
    from fastapi_ok [of h s, OF ok] show ?thesis unfolding eq by blast
  qed
qed

lemma vscode_ok:
  assumes "os_error h (Makedirs ''.vscode'') = None"
    and "os_error h (OpenWrite (os_path_join h ''.vscode'' ''settings.json'')) = None"
  shows "setup_vscode h s =
    (Inr (), s\<lparr>dirs := insert (cwd s, ''.vscode'') (dirs s),
       files := (files s)((cwd s, ''.vscode'' @ os_sep h @ ''settings.json'') \<mapsto> settings_json h)\<rparr>)"
  using assms by (simp add: setup_vscode_def makedirs_def open_write_def plain_joins)

lemma vscode_fail:
  assumes "os_error h (Makedirs ''.vscode'') = None"
    and "os_error h (OpenWrite (os_path_join h ''.vscode'' ''settings.json'')) = Some e"
  shows "setup_vscode h s = (Inl e, s\<lparr>dirs := insert (cwd s, ''.vscode'') (dirs s)\<rparr>)"
  using assms by (simp add: setup_vscode_def makedirs_def open_write_def plain_joins)

lemma install_nonzero:
  assumes "process h (pip_command h vd) = Exited n" and "n \<noteq> 0"
  shows "install_dependencies h vd s =
    (Inr (), s\<lparr>output_text := output_text s
          @ [''INFO: Installing dependencies...'',
             ''ERROR: Failed to install dependencies: '' @ cpe_str h (pip_command h vd) n],
       calls := calls s @ [SubprocessRun (pip_command h vd)]\<rparr>)"
  using assms
  by (simp add: install_dependencies_def pip_command_def subprocess_run_def emit_def
      try_except_def Let_def)

lemma install_effect:
  "\<exists>r lines. install_dependencies h vd s =
    (r, s\<lparr>output_text := output_text s @ lines,
           calls := calls s @ [SubprocessRun (pip_command h vd)]\<rparr>)"
proof (cases "process h (pip_command h vd)")
  case (Exited n)
  show ?thesis
  proof (cases "n = 0")
    case True
    have "install_dependencies h vd s =
      (Inr (), s\<lparr>output_text := output_text s
            @ [''INFO: Installing dependencies...'', ''SUCCESS: Dependencies installed.''],
         calls := calls s @ [SubprocessRun (pip_command h vd)]\<rparr>)"
      using Exited True
      by (simp add: install_dependencies_def pip_command_def subprocess_run_def emit_def
          try_except_def Let_def)
    then show ?thesis by blast
  next
    case False
    show ?thesis unfolding install_nonzero [OF Exited False] by blast
  qed
next
  case (NotStarted e)
  obtain c msg where e: "e = Raised c msg" by (cases e)
  show ?thesis
  proof (cases "c = CalledProcessError")
    case True
    have "install_dependencies h vd s =
      (Inr (), s\<lparr>output_text := output_text s
            @ [''INFO: Installing dependencies...'',
               ''ERROR: Failed to install dependencies: '' @ msg],
         calls := calls s @ [SubprocessRun (pip_command h vd)]\<rparr>)"
      using NotStarted e True
      by (simp add: install_dependencies_def pip_command_def subprocess_run_def emit_def
          try_except_def Let_def)
    then show ?thesis by blast
  next
    case False
    have "install_dependencies h vd s =
      (Inl e, s\<lparr>output_text := output_text s @ [''INFO: Installing dependencies...''],
         calls := calls s @ [SubprocessRun (pip_command h vd)]\<rparr>)"
      using NotStarted e False
      by (cases c)
         (simp_all add: install_dependencies_def pip_command_def subprocess_run_def emit_def
          try_except_def Let_def)
    then show ?thesis by blast
  qed
qed

lemma open_effect:
  "\<exists>r lines. open_in_vscode h pd s =
      (r, s\<lparr>output_text := output_text s @ lines,
             calls := calls s @ [SubprocessRun [VSCODE_PATH, pd]]\<rparr>)
    \<and> (launch_handled (process h [VSCODE_PATH, pd]) \<longrightarrow> r = Inr ())"
proof (cases "process h [VSCODE_PATH, pd]")
  case (Exited n)
  show ?thesis
  proof (cases "n = 0")
    case True
    have "open_in_vscode h pd s =
      (Inr (), s\<lparr>output_text := output_text s @ [''SUCCESS: Project opened in VS Code.''],
         calls := calls s @ [SubprocessRun [VSCODE_PATH, pd]]\<rparr>)"
      using Exited True
      by (simp add: open_in_vscode_def subprocess_run_def emit_def try_except_def Let_def)
    then show ?thesis by blast
  next
    case False
    have "open_in_vscode h pd s =
      (Inr (), s\<lparr>output_text := output_text s
           @ [''ERROR: Failed to open VS Code: '' @ cpe_str h [VSCODE_PATH, pd] n],
         calls := calls s @ [SubprocessRun [VSCODE_PATH, pd]]\<rparr>)"
      using Exited False
      by (simp add: open_in_vscode_def subprocess_run_def emit_def try_except_def Let_def)
    then show ?thesis by blast
  qed
next
  case (NotStarted e)
  obtain c msg where e: "e = Raised c msg" by (cases e)
  show ?thesis
  proof (cases "c = FileNotFoundError \<or> c = CalledProcessError")
    case True
    then consider "c = FileNotFoundError" | "c = CalledProcessError" by blast
    then show ?thesis
    proof cases
      case 1
      have "open_in_vscode h pd s =
        (Inr (), s\<lparr>output_text := output_text s
             @ [''ERROR: Could not find VS Code. Ensure that the path is correct.''],
           calls := calls s @ [SubprocessRun [VSCODE_PATH, pd]]\<rparr>)"
        using NotStarted e 1
        by (simp add: open_in_vscode_def subprocess_run_def emit_def try_except_def Let_def)
      then show ?thesis by blast
    next
      case 2
      have "open_in_vscode h pd s =
        (Inr (), s\<lparr>output_text := output_text s @ [''ERROR: Failed to open VS Code: '' @ msg],
           calls := calls s @ [SubprocessRun [VSCODE_PATH, pd]]\<rparr>)"
        using NotStarted e 2
        by (simp add: open_in_vscode_def subprocess_run_def emit_def try_except_def Let_def)
      then show ?thesis by blast
    qed
  next
    case False
    then have "open_in_vscode h pd s =
      (Inl e, s\<lparr>output_text := output_text s @ [],
         calls := calls s @ [SubprocessRun [VSCODE_PATH, pd]]\<rparr>)"
      using NotStarted e
      by (cases c)
         (simp_all add: open_in_vscode_def subprocess_run_def try_except_def Let_def)
    moreover have "\<not> launch_handled (process h [VSCODE_PATH, pd])"
      using NotStarted e False by (simp add: launch_handled_def)
    ultimately show ?thesis by blast
  qed
qed

section \<open>The dependency lists\<close>

text \<open>
  Claim C9. The six test packages pytest, pytest-cov, pytest-mock, pytest-xdist,
  pytest-asyncio, pytest-profiling are a contiguous block, in that order, of the package
  list of each of the three templates: the basic list is the block, the data analytics
  list puts jupyter before it, the FastAPI list puts fastapi and uvicorn before it and
  httpx after it.
\<close>

theorem test_packages_block:
  "basic_packages = [''pytest'', ''pytest-cov'', ''pytest-mock'', ''pytest-xdist'',
      ''pytest-asyncio'', ''pytest-profiling'']
   \<and> data_analytics_packages = [''jupyter''] @ basic_packages
   \<and> fastapi_packages = [''fastapi'', ''uvicorn''] @ basic_packages @ [''httpx'']
   \<and> sublist basic_packages basic_packages
   \<and> sublist basic_packages data_analytics_packages
   \<and> sublist basic_packages fastapi_packages"
proof -
  have d: "data_analytics_packages = [''jupyter''] @ basic_packages"
    by (simp add: data_analytics_packages_def basic_packages_def)
  have f: "fastapi_packages = [''fastapi'', ''uvicorn''] @ basic_packages @ [''httpx'']"
    by (simp add: fastapi_packages_def basic_packages_def)
  have "sublist basic_packages data_analytics_packages"
    unfolding d by (rule sublist_append_leftI)
  moreover have "sublist basic_packages fastapi_packages"
    unfolding f by (rule sublist_appendI)
  ultimately show ?thesis
    using d f by (simp add: basic_packages_def)
qed



lemma good_host_fs: "os_error good_host c = None"
  by (simp add: good_host_def)


section \<open>The README\<close>

text \<open>
  Claim C8. The README is a function of the project name and the run command alone:
  writing it a second time changes nothing, and two invocations with the same project
  name and run command, on any two hosts and states where the file can be written, leave
  the same text in README.md.
\<close>

theorem readme_deterministic:
  "create_readme h rc (snd (create_readme h rc s)) = create_readme h rc s
   \<and> (os_error h (OpenWrite ''README.md'') = None
        \<and> os_error h' (OpenWrite ''README.md'') = None
        \<and> project_name s' = project_name s
      \<longrightarrow> files (snd (create_readme h rc s)) (cwd s, ''README.md'')
            = Some (readme_content (project_name s) rc)
          \<and> files (snd (create_readme h' rc s')) (cwd s', ''README.md'')
            = Some (readme_content (project_name s) rc))"
  by (simp add: create_readme_def open_write_def split: option.splits)

theorem readme_deterministic_witness:
  "files (snd (create_readme good_host ''python app/main.py'' (init_state\<lparr>project_name := ''demo''\<rparr>)))
      (cwd (init_state\<lparr>project_name := ''demo''\<rparr>), ''README.md'')
     = Some (readme_content (project_name (init_state\<lparr>project_name := ''demo''\<rparr>)) ''python app/main.py'')
   \<and> files (snd (create_readme good_host ''python app/main.py''
          (init_state\<lparr>project_name := ''demo'', cwd := ''/tmp''\<rparr>)))
      (cwd (init_state\<lparr>project_name := ''demo'', cwd := ''/tmp''\<rparr>), ''README.md'')
     = Some (readme_content (project_name (init_state\<lparr>project_name := ''demo''\<rparr>)) ''python app/main.py'')"
  using readme_deterministic [of good_host "''python app/main.py''" "init_state\<lparr>project_name := ''demo''\<rparr>"
      good_host "init_state\<lparr>project_name := ''demo'', cwd := ''/tmp''\<rparr>"]
  by (simp add: good_host_fs)

section \<open>Docker ports\<close>




lemma not_in_python:
  "\<not> py_in ''uvicorn'' ''python app/main.py''" "\<not> py_in ''jupyter'' ''python app/main.py''"
  by (simp_all add: py_in_def sublist_code)






section \<open>The project name\<close>


lemma run_setup_exists:
  assumes "path_exists s (project_dir_of h s)"
  shows \<open>run_setup_try h s
    = (Inl (Raised FileExistsError
         (''ERROR: Project directory "'' @ project_dir_of h s @ ''" already exists.'')), s)\<close>
  using assms by (simp add: run_setup_try_steps check_project_dir_def raise_def)

text \<open>
  Claim C5. A name that is empty or only whitespace is refused with the input warning,
  and nothing on disk changes and no call leaves the process. When the project directory
  already exists, the setup raises \<open>FileExistsError\<close> at its first statement, the error
  is logged, and no directory, file or working directory changes and no call is made.
\<close>

theorem validator_atomicity:
  \<open>(strip name_input = [] \<longrightarrow>
      dirs (create_project h name_input current_index s) = dirs s
    \<and> files (create_project h name_input current_index s) = files s
    \<and> cwd (create_project h name_input current_index s) = cwd s
    \<and> calls (create_project h name_input current_index s) = calls s
    \<and> output_text (create_project h name_input current_index s) = output_text s
    \<and> warnings (create_project h name_input current_index s)
        = warnings s @ [(''Input Error'', ''Please enter a project name.'')])
   \<and> (path_exists s (os_path_join h BASE_PATH (project_name s)) \<longrightarrow>
      run_setup_try h s
        = (Inl (Raised FileExistsError
             (''ERROR: Project directory "'' @ os_path_join h BASE_PATH (project_name s)
              @ ''" already exists.'')), s)
    \<and> dirs (run_setup h s) = dirs s
    \<and> files (run_setup h s) = files s
    \<and> cwd (run_setup h s) = cwd s
    \<and> calls (run_setup h s) = calls s)
   \<and> (strip name_input \<noteq> []
        \<and> path_exists s (os_path_join h BASE_PATH (strip name_input)) \<longrightarrow>
      dirs (create_project h name_input current_index s) = dirs s
    \<and> files (create_project h name_input current_index s) = files s
    \<and> cwd (create_project h name_input current_index s) = cwd s
    \<and> calls (create_project h name_input current_index s) = calls s
    \<and> output_text (create_project h name_input current_index s)
        = [''ERROR: ERROR: Project directory "'' @ os_path_join h BASE_PATH (strip name_input)
           @ ''" already exists.''])\<close>
proof (intro conjI impI)
  assume e: "path_exists s (os_path_join h BASE_PATH (project_name s))"
  then have p: "path_exists s (project_dir_of h s)" by (simp add: project_dir_of_def)
  show \<open>run_setup_try h s
        = (Inl (Raised FileExistsError
             (''ERROR: Project directory "'' @ os_path_join h BASE_PATH (project_name s)
              @ ''" already exists.'')), s)\<close>
    using run_setup_exists [OF p] by (simp add: project_dir_of_def)
  show "dirs (run_setup h s) = dirs s" "files (run_setup h s) = files s"
    "cwd (run_setup h s) = cwd s" "calls (run_setup h s) = calls s"
    by (simp_all add: run_setup_def run_setup_exists [OF p])
next
  assume "strip name_input \<noteq> [] \<and> path_exists s (os_path_join h BASE_PATH (strip name_input))"
  then have ne: "strip name_input \<noteq> []"
    and e: "path_exists s (os_path_join h BASE_PATH (strip name_input))" by simp_all
  define s0 where "s0 = s\<lparr>project_name := strip name_input, project_type := current_index + 1,
     create_enabled := False, cancel_enabled := False, progress_bar := 0, output_text := []\<rparr>"
  have cp: "create_project h name_input current_index s = run_setup h s0"
    using ne by (simp add: create_project_def Let_def s0_def)
  have p: "path_exists s0 (project_dir_of h s0)"
    using e by (simp add: project_dir_of_def s0_def path_exists_def)
  have pd: "project_dir_of h s0 = os_path_join h BASE_PATH (strip name_input)"
    by (simp add: project_dir_of_def s0_def)
  show "dirs (create_project h name_input current_index s) = dirs s"
    "files (create_project h name_input current_index s) = files s"
    "cwd (create_project h name_input current_index s) = cwd s"
    "calls (create_project h name_input current_index s) = calls s"
    by (simp_all add: cp run_setup_def run_setup_exists [OF p]) (simp_all add: s0_def)
  show \<open>output_text (create_project h name_input current_index s)
        = [''ERROR: ERROR: Project directory "'' @ os_path_join h BASE_PATH (strip name_input)
           @ ''" already exists.'']\<close>
    by (simp add: cp run_setup_def run_setup_exists [OF p] pd) (simp add: s0_def)
qed (simp_all add: create_project_def Let_def)

theorem validator_atomicity_witness:
  \<open>files (create_project good_host ''   '' 0 init_state) = files init_state
   \<and> dirs (create_project good_host ''   '' 0 init_state) = dirs init_state
   \<and> calls (create_project good_host ''   '' 0 init_state) = calls init_state
   \<and> warnings (create_project good_host ''   '' 0 init_state)
        = warnings init_state @ [(''Input Error'', ''Please enter a project name.'')]
   \<and> run_setup_try good_host taken_state
        = (Inl (Raised FileExistsError
             (''ERROR: Project directory "''
              @ os_path_join good_host BASE_PATH (project_name taken_state)
              @ ''" already exists.'')), taken_state)
   \<and> files (create_project good_host ''demo'' 0 taken_state) = files taken_state
   \<and> dirs (create_project good_host ''demo'' 0 taken_state) = dirs taken_state\<close>
proof -
  have e: "path_exists taken_state (os_path_join good_host BASE_PATH ''demo'')"
    by (simp add: path_exists_def taken_state_def init_state_def)
  have n: "project_name taken_state = ''demo''"
    by (simp add: taken_state_def)
  show ?thesis
    using validator_atomicity [of "''   ''" good_host 0 init_state]
      validator_atomicity [of "''demo''" good_host 0 taken_state]
    by (simp add: strip_blank strip_demo e n)
qed

section \<open>Failures that end the run\<close>

lemma run_setup_fields:
  "dirs (run_setup h s) = dirs (snd (run_setup_try h s))"
  "files (run_setup h s) = files (snd (run_setup_try h s))"
  "cwd (run_setup h s) = cwd (snd (run_setup_try h s))"
  "calls (run_setup h s) = calls (snd (run_setup_try h s))"
  by (simp_all add: run_setup_def split: prod.splits sum.splits exn.splits)

lemma run_setup_raised:
  "run_setup_try h s = (Inl (Raised c msg), s') \<Longrightarrow>
     run_setup h s = s'\<lparr>output_text := output_text s' @ [''ERROR: '' @ msg],
                        create_enabled := True, cancel_enabled := True\<rparr>"
  by (simp add: run_setup_def)

lemma run_setup_returned: "run_setup_try h s = (Inr (), s') \<Longrightarrow> run_setup h s = s'"
  by (simp add: run_setup_def)

lemma download_status:
  assumes "http_get h gitignore_url = Response code body" and "code \<noteq> 200"
  shows "download_gitignore h s
    = (Inl (Raised Exception ''ERROR: Failed to download .gitignore file.''),
       s\<lparr>calls := calls s @ [HttpGet gitignore_url]\<rparr>)"
  using assms by (simp add: download_gitignore_def Let_def raise_def)

lemma download_ok:
  assumes "http_get h gitignore_url = Response 200 body"
    and "os_error h (OpenWrite ''.gitignore'') = None"
  shows "download_gitignore h s
    = (Inr (), s\<lparr>files := (files s)((cwd s, ''.gitignore'') \<mapsto> body),
         output_text := output_text s @ [''SUCCESS: .gitignore file downloaded.''],
         calls := calls s @ [HttpGet gitignore_url]\<rparr>)"
  using assms by (simp add: download_gitignore_def Let_def open_write_def emit_def)

lemma fetch_failure_run:
  assumes nex: "\<not> path_exists s (project_dir_of h s)"
    and mk: "os_error h (Makedirs (project_dir_of h s)) = None"
    and cd: "os_error h (Chdir (project_dir_of h s)) = None"
    and venv: "venv_error h (venv_dir_of h s) = None"
    and http: "http_get h gitignore_url = Response code body" and code: "code \<noteq> 200"
  shows "run_setup_try h s
    = (Inl (Raised Exception ''ERROR: Failed to download .gitignore file.''),
       (scaffolded h s)\<lparr>calls := calls (scaffolded h s) @ [HttpGet gitignore_url]\<rparr>)"
  by (simp add: reach_fetch [OF nex mk cd venv] steps_3_to_9_def download_status [OF http code])

lemma length_crlf: "length (crlf t) = length t + length (filter (\<lambda>c. c = CHR ''\<newline>'') t)"
  by (induction t) simp_all

lemma crlf_changes: "CHR ''\<newline>'' \<in> set t \<Longrightarrow> crlf t \<noteq> t"
proof
  assume nl: "CHR ''\<newline>'' \<in> set t" and eq: "crlf t = t"
  from nl have "filter (\<lambda>c. c = CHR ''\<newline>'') t \<noteq> []"
    by (simp add: filter_empty_conv)
  then have "length t < length (crlf t)" by (simp add: length_crlf)
  with eq show False by simp
qed

lemma crlf_same: "CHR ''\<newline>'' \<notin> set t \<Longrightarrow> crlf t = t"
  by (induction t) auto

text \<open>
  Claim C3, as the code has it. When the download of the .gitignore template answers
  200, the decoded text of the response (\<open>response.text\<close>) is written to .gitignore
  through a file opened in text mode: the text of the file is that text, and its bytes
  are those of the text with every line feed written as carriage return and line feed
  on Windows, so they are the bytes of the text exactly when the host is not Windows or
  the text has no line feed. For every other status the step raises an exception
  (\<open>Exception\<close> with the text of the failed download, the spec's AssetFetchError), the
  run ends there with the error logged, and nothing that follows the download is
  executed: no process is started, no file is written, no directory is made beyond the
  project directory and its virtual environment.
\<close>

theorem asset_fetcher:
  "(http_get h gitignore_url = Response 200 body \<and> os_error h (OpenWrite ''.gitignore'') = None
      \<longrightarrow> fst (download_gitignore h s) = Inr ()
          \<and> files (snd (download_gitignore h s)) (cwd s, ''.gitignore'') = Some body
          \<and> bytes_on_disk h (snd (download_gitignore h s)) (cwd s, ''.gitignore'')
              = Some (if os_nt h then crlf body else body)
          \<and> (bytes_on_disk h (snd (download_gitignore h s)) (cwd s, ''.gitignore'') = Some body)
              = (\<not> (os_nt h \<and> CHR ''\<newline>'' \<in> set body)))
   \<and> (http_get h gitignore_url = Response code body \<and> code \<noteq> 200
      \<longrightarrow> download_gitignore h s
            = (Inl (Raised Exception ''ERROR: Failed to download .gitignore file.''),
               s\<lparr>calls := calls s @ [HttpGet gitignore_url]\<rparr>))
   \<and> (http_get h gitignore_url = Response code body \<and> code \<noteq> 200
        \<and> \<not> path_exists s (project_dir_of h s)
        \<and> os_error h (Makedirs (project_dir_of h s)) = None
        \<and> os_error h (Chdir (project_dir_of h s)) = None
        \<and> venv_error h (venv_dir_of h s) = None
      \<longrightarrow> fst (run_setup_try h s)
            = Inl (Raised Exception ''ERROR: Failed to download .gitignore file.'')
          \<and> calls (run_setup h s)
            = calls s @ [VenvCreate (venv_dir_of h s), HttpGet gitignore_url]
          \<and> files (run_setup h s) = files s
          \<and> dirs (run_setup h s)
            = insert (project_dir_of h s, venv_dir_of h s)
                (insert (cwd s, project_dir_of h s) (dirs s))
          \<and> output_text (run_setup h s)
            = output_text s
              @ [created_line (project_dir_of h s), ''SUCCESS: Virtual environment created.'',
                 ''ERROR: ERROR: Failed to download .gitignore file.''])"
proof (intro conjI impI)
  assume "http_get h gitignore_url = Response 200 body \<and> os_error h (OpenWrite ''.gitignore'') = None"
  then have ok: "download_gitignore h s
    = (Inr (), s\<lparr>files := (files s)((cwd s, ''.gitignore'') \<mapsto> body),
         output_text := output_text s @ [''SUCCESS: .gitignore file downloaded.''],
         calls := calls s @ [HttpGet gitignore_url]\<rparr>)"
    by (simp add: download_ok)
  show "fst (download_gitignore h s) = Inr ()"
    "files (snd (download_gitignore h s)) (cwd s, ''.gitignore'') = Some body"
    "bytes_on_disk h (snd (download_gitignore h s)) (cwd s, ''.gitignore'')
              = Some (if os_nt h then crlf body else body)"
    by (simp_all add: ok bytes_on_disk_def text_mode_bytes_def)
  show "(bytes_on_disk h (snd (download_gitignore h s)) (cwd s, ''.gitignore'') = Some body)
              = (\<not> (os_nt h \<and> CHR ''\<newline>'' \<in> set body))"
    using crlf_changes [of body] crlf_same [of body]
    by (auto simp add: ok bytes_on_disk_def text_mode_bytes_def)
next
  assume "http_get h gitignore_url = Response code body \<and> code \<noteq> 200"
  then show "download_gitignore h s
            = (Inl (Raised Exception ''ERROR: Failed to download .gitignore file.''),
               s\<lparr>calls := calls s @ [HttpGet gitignore_url]\<rparr>)"
    by (simp add: download_status)
next
  assume a: "http_get h gitignore_url = Response code body \<and> code \<noteq> 200
        \<and> \<not> path_exists s (project_dir_of h s)
        \<and> os_error h (Makedirs (project_dir_of h s)) = None
        \<and> os_error h (Chdir (project_dir_of h s)) = None
        \<and> venv_error h (venv_dir_of h s) = None"
  then have run: "run_setup_try h s
    = (Inl (Raised Exception ''ERROR: Failed to download .gitignore file.''),
       (scaffolded h s)\<lparr>calls := calls (scaffolded h s) @ [HttpGet gitignore_url]\<rparr>)"
    by (simp add: fetch_failure_run)
  show "fst (run_setup_try h s)
            = Inl (Raised Exception ''ERROR: Failed to download .gitignore file.'')"
    by (simp add: run)
  show "calls (run_setup h s) = calls s @ [VenvCreate (venv_dir_of h s), HttpGet gitignore_url]"
    "files (run_setup h s) = files s"
    "dirs (run_setup h s)
            = insert (project_dir_of h s, venv_dir_of h s)
                (insert (cwd s, project_dir_of h s) (dirs s))"
    by (simp_all add: run_setup_fields run scaffolded_def)
  show "output_text (run_setup h s)
            = output_text s
              @ [created_line (project_dir_of h s), ''SUCCESS: Virtual environment created.'',
                 ''ERROR: ERROR: Failed to download .gitignore file.'']"
    by (simp add: run_setup_raised [OF run] scaffolded_def)
qed

lemma demo_state_fresh: "\<not> path_exists demo_state p"
  by (simp add: path_exists_def demo_state_def init_state_def)

lemma windows_host_facts:
  "os_nt windows_host"
  "http_get windows_host gitignore_url = Response 200 ''*.pyc\<newline>.venv/\<newline>''"
  "os_error windows_host c = None"
  by (simp_all add: windows_host_def good_host_def)

theorem asset_fetcher_witness:
  "fst (download_gitignore good_host demo_state) = Inr ()
   \<and> files (snd (download_gitignore good_host demo_state)) (cwd demo_state, ''.gitignore'')
       = Some ''__pycache__/\<newline>''
   \<and> bytes_on_disk good_host (snd (download_gitignore good_host demo_state))
         (cwd demo_state, ''.gitignore'')
       = Some ''__pycache__/\<newline>''
   \<and> fst (run_setup_try not_found_host demo_state)
       = Inl (Raised Exception ''ERROR: Failed to download .gitignore file.'')
   \<and> calls (run_setup not_found_host demo_state)
       = calls demo_state @ [VenvCreate (venv_dir_of not_found_host demo_state), HttpGet gitignore_url]
   \<and> files (run_setup not_found_host demo_state) = files demo_state"
proof -
  have g: "http_get good_host gitignore_url = Response 200 ''__pycache__/\<newline>''"
    "os_error good_host (OpenWrite ''.gitignore'') = None" "\<not> os_nt good_host"
    by (simp_all add: good_host_def)
  have n: "http_get not_found_host gitignore_url = Response 404 ''404: Not Found''"
    "os_error not_found_host c = None" "venv_error not_found_host d = None" for c d
    by (simp_all add: not_found_host_def good_host_def)
  show ?thesis
    using asset_fetcher [of good_host "''__pycache__/\<newline>''" demo_state 404]
      asset_fetcher [of not_found_host "''404: Not Found''" demo_state 404]
    by (simp add: g n demo_state_fresh)
qed

text \<open>
  The claim as the spec words it (on status 200 the body is written byte for byte)
  fails on a Windows host whose download answers 200 with two lines of text: each line
  feed reaches the disk as carriage return and line feed.
\<close>

theorem asset_fetcher_counterexample:
  "http_get windows_host gitignore_url = Response 200 ''*.pyc\<newline>.venv/\<newline>''
   \<and> fst (download_gitignore windows_host demo_state) = Inr ()
   \<and> bytes_on_disk windows_host (snd (download_gitignore windows_host demo_state))
         (cwd demo_state, ''.gitignore'')
       = Some (''*.pyc'' @ [CHR 0x0D, CHR ''\<newline>''] @ ''.venv/'' @ [CHR 0x0D, CHR ''\<newline>''])
   \<and> bytes_on_disk windows_host (snd (download_gitignore windows_host demo_state))
         (cwd demo_state, ''.gitignore'')
       \<noteq> Some ''*.pyc\<newline>.venv/\<newline>''"
proof -
  have "download_gitignore windows_host demo_state
    = (Inr (), demo_state\<lparr>files := (files demo_state)((cwd demo_state, ''.gitignore'')
           \<mapsto> ''*.pyc\<newline>.venv/\<newline>''),
         output_text := output_text demo_state @ [''SUCCESS: .gitignore file downloaded.''],
         calls := calls demo_state @ [HttpGet gitignore_url]\<rparr>)"
    by (rule download_ok) (simp_all add: windows_host_facts)
  then show ?thesis
    by (simp add: windows_host_facts bytes_on_disk_def text_mode_bytes_def)
qed

lemma back_frame:
  "\<exists>r s'. do_all (steps_8_to_9 h pd vd) s = (r, s')
     \<and> files s' = files s \<and> dirs s' = dirs s \<and> cwd s' = cwd s"
proof -
  obtain r1 l1 where i: "install_dependencies h vd s =
      (r1, s\<lparr>output_text := output_text s @ l1,
              calls := calls s @ [SubprocessRun (pip_command h vd)]\<rparr>)"
    using install_effect by blast
  show ?thesis
  proof (cases r1)
    case (Inl e)
    then show ?thesis using i by (simp add: steps_8_to_9_def)
  next
    case (Inr u)
    define s1 where "s1 = s\<lparr>output_text := output_text s @ l1,
              calls := calls s @ [SubprocessRun (pip_command h vd)], progress_bar := percent 8\<rparr>"
    obtain r2 l2 where o: "open_in_vscode h pd s1 =
      (r2, s1\<lparr>output_text := output_text s1 @ l2,
               calls := calls s1 @ [SubprocessRun [VSCODE_PATH, pd]]\<rparr>)"
      using open_effect by blast
    have "do_all (steps_8_to_9 h pd vd) s
        = do_all [open_in_vscode h pd, progress_emit 100, set_buttons True] s1"
      using i Inr by (simp add: steps_8_to_9_def progress_emit_def s1_def)
    then show ?thesis
      using o by (cases r2) (simp_all add: progress_emit_def set_buttons_def s1_def)
  qed
qed

lemma back_pip_nonzero:
  assumes pip: "process h (pip_command h vd) = Exited n" and n: "n \<noteq> 0"
  shows "\<exists>r s' lines. do_all (steps_8_to_9 h pd vd) s = (r, s')
     \<and> calls s' = calls s @ [SubprocessRun (pip_command h vd), SubprocessRun [VSCODE_PATH, pd]]
     \<and> output_text s' = output_text s
          @ [''INFO: Installing dependencies...'',
             ''ERROR: Failed to install dependencies: '' @ cpe_str h (pip_command h vd) n]
          @ lines
     \<and> (r = Inr () \<longrightarrow> progress_bar s' = 100 \<and> create_enabled s' \<and> cancel_enabled s')
     \<and> (launch_handled (process h [VSCODE_PATH, pd]) \<longrightarrow> r = Inr ())"
proof -
  define s1 where "s1 = s\<lparr>output_text := output_text s
          @ [''INFO: Installing dependencies...'',
             ''ERROR: Failed to install dependencies: '' @ cpe_str h (pip_command h vd) n],
       calls := calls s @ [SubprocessRun (pip_command h vd)], progress_bar := percent 8\<rparr>"
  obtain r2 l2 where o: "open_in_vscode h pd s1 =
      (r2, s1\<lparr>output_text := output_text s1 @ l2,
               calls := calls s1 @ [SubprocessRun [VSCODE_PATH, pd]]\<rparr>)"
    and handled: "launch_handled (process h [VSCODE_PATH, pd]) \<longrightarrow> r2 = Inr ()"
    using open_effect by blast
  have start: "do_all (steps_8_to_9 h pd vd) s
        = do_all [open_in_vscode h pd, progress_emit 100, set_buttons True] s1"
    by (simp add: steps_8_to_9_def install_nonzero [OF pip n] progress_emit_def s1_def)
  show ?thesis
  proof (cases r2)
    case (Inl e)
    then have "do_all (steps_8_to_9 h pd vd) s
      = (Inl e, s1\<lparr>output_text := output_text s1 @ l2,
               calls := calls s1 @ [SubprocessRun [VSCODE_PATH, pd]]\<rparr>)"
      using start o by simp
    moreover have "\<not> launch_handled (process h [VSCODE_PATH, pd])"
      using handled Inl by auto
    ultimately show ?thesis by (simp add: s1_def)
  next
    case (Inr u)
    then have "do_all (steps_8_to_9 h pd vd) s
      = (Inr (), s1\<lparr>output_text := output_text s1 @ l2,
               calls := calls s1 @ [SubprocessRun [VSCODE_PATH, pd]],
               progress_bar := 100, create_enabled := True, cancel_enabled := True\<rparr>)"
      using start o by (simp add: progress_emit_def set_buttons_def)
    then show ?thesis by (simp add: s1_def)
  qed
qed

lemma reach_vscode:
  assumes nex: "\<not> path_exists s (project_dir_of h s)"
    and ok: "\<And>c. c \<noteq> OpenWrite (os_path_join h ''.vscode'' ''settings.json'')
                 \<Longrightarrow> os_error h c = None"
    and venv: "venv_error h (venv_dir_of h s) = None"
    and http: "http_get h gitignore_url = Response 200 body"
    and git: "process h [''git'', ''init''] = Exited 0"
    and ty: "project_type s = 1 \<or> project_type s = 2 \<or> project_type s = 3"
  shows "\<exists>s6. run_setup_try h s
            = do_all (steps_7_to_9 h (project_dir_of h s) (venv_dir_of h s)) s6
     \<and> calls s6 = calls s @ [VenvCreate (venv_dir_of h s), HttpGet gitignore_url,
                               SubprocessRun [''git'', ''init'']]
     \<and> cwd s6 = project_dir_of h s"
proof -
  define s5 where "s5 = linted h body (scaffolded h s)"
  have ty5: "project_type s5 = 1 \<or> project_type s5 = 2 \<or> project_type s5 = 3"
    using ty by (simp add: s5_def linted_def scaffolded_def)
  obtain ds fm line where gen: "setup_by_type h s5
      = (Inr (), s5\<lparr>dirs := ds, files := fm, output_text := output_text s5 @ [line]\<rparr>)"
    using by_type_ok [OF ok ty5] by blast
  have "run_setup_try h s
      = do_all (steps_3_to_9 h (project_dir_of h s) (venv_dir_of h s)) (scaffolded h s)"
    by (rule reach_fetch) (simp_all add: nex ok venv)
  also have "\<dots> = do_all (steps_6_to_9 h (project_dir_of h s) (venv_dir_of h s)) s5"
    unfolding s5_def by (rule reach_template) (simp_all add: http git ok plain_joins)
  also have "\<dots> = do_all (steps_7_to_9 h (project_dir_of h s) (venv_dir_of h s))
      (s5\<lparr>dirs := ds, files := fm, output_text := output_text s5 @ [line],
         progress_bar := percent 6\<rparr>)"
    by (simp add: steps_6_to_9_def gen progress_emit_def)
  finally have run: "run_setup_try h s
      = do_all (steps_7_to_9 h (project_dir_of h s) (venv_dir_of h s))
          (s5\<lparr>dirs := ds, files := fm, output_text := output_text s5 @ [line],
              progress_bar := percent 6\<rparr>)" .
  have "calls s5 = calls s @ [VenvCreate (venv_dir_of h s), HttpGet gitignore_url,
                               SubprocessRun [''git'', ''init'']]"
    and "cwd s5 = project_dir_of h s"
    by (simp_all add: s5_def linted_def scaffolded_def)
  with run show ?thesis
    by (intro exI [of _ "s5\<lparr>dirs := ds, files := fm, output_text := output_text s5 @ [line],
         progress_bar := percent 6\<rparr>"]) simp
qed

lemma editor_config_failure:
  assumes nex: "\<not> path_exists s (project_dir_of h s)"
    and ok: "\<And>c. c \<noteq> OpenWrite (os_path_join h ''.vscode'' ''settings.json'')
                 \<Longrightarrow> os_error h c = None"
    and fail: "os_error h (OpenWrite (os_path_join h ''.vscode'' ''settings.json''))
                 = Some (Raised c msg)"
    and venv: "venv_error h (venv_dir_of h s) = None"
    and http: "http_get h gitignore_url = Response 200 body"
    and git: "process h [''git'', ''init''] = Exited 0"
    and ty: "project_type s = 1 \<or> project_type s = 2 \<or> project_type s = 3"
  shows "fst (run_setup_try h s) = Inl (Raised c msg)
     \<and> calls (run_setup h s)
         = calls s @ [VenvCreate (venv_dir_of h s), HttpGet gitignore_url,
                      SubprocessRun [''git'', ''init'']]
     \<and> last (output_text (run_setup h s)) = ''ERROR: '' @ msg
     \<and> create_enabled (run_setup h s) \<and> cancel_enabled (run_setup h s)"
proof -
  obtain s6 where run: "run_setup_try h s
            = do_all (steps_7_to_9 h (project_dir_of h s) (venv_dir_of h s)) s6"
    and calls6: "calls s6 = calls s @ [VenvCreate (venv_dir_of h s), HttpGet gitignore_url,
                               SubprocessRun [''git'', ''init'']]"
    using reach_vscode [OF nex ok venv http git ty] by blast
  have mk: "os_error h (Makedirs ''.vscode'') = None" by (simp add: ok)
  have "run_setup_try h s
      = (Inl (Raised c msg), s6\<lparr>dirs := insert (cwd s6, ''.vscode'') (dirs s6)\<rparr>)"
    by (simp add: run steps_7_to_9_def vscode_fail [OF mk fail])
  then show ?thesis
    by (simp add: run_setup_raised calls6)
qed

text \<open>
  Claim C2, as the code has it. \<open>setup_vscode\<close> has no handler of its own. In a run
  where everything before it succeeded and the write of the editor settings fails, the
  exception reaches the handler of \<open>run_setup\<close>: it is logged as one error line, the
  buttons are enabled again, and the run ends there. Neither the dependency installer
  nor the editor launcher is executed: the calls made are the creation of the virtual
  environment, the download and \<open>git init\<close>.
\<close>

theorem editor_config_failure_ends_run:
  assumes "\<not> path_exists s (project_dir_of h s)"
    and "\<And>c. c \<noteq> OpenWrite (os_path_join h ''.vscode'' ''settings.json'')
                 \<Longrightarrow> os_error h c = None"
    and "os_error h (OpenWrite (os_path_join h ''.vscode'' ''settings.json''))
                 = Some (Raised c msg)"
    and "venv_error h (venv_dir_of h s) = None"
    and "http_get h gitignore_url = Response 200 body"
    and "process h [''git'', ''init''] = Exited 0"
    and "project_type s = 1 \<or> project_type s = 2 \<or> project_type s = 3"
  shows "fst (run_setup_try h s) = Inl (Raised c msg)
     \<and> calls (run_setup h s)
         = calls s @ [VenvCreate (venv_dir_of h s), HttpGet gitignore_url,
                      SubprocessRun [''git'', ''init'']]
     \<and> SubprocessRun (pip_command h (venv_dir_of h s)) \<notin> set (calls (run_setup h s)) - set (calls s)
     \<and> SubprocessRun [VSCODE_PATH, project_dir_of h s] \<notin> set (calls (run_setup h s)) - set (calls s)
     \<and> last (output_text (run_setup h s)) = ''ERROR: '' @ msg
     \<and> create_enabled (run_setup h s) \<and> cancel_enabled (run_setup h s)"
proof -
  have vs: "VSCODE_PATH \<noteq> ''git''" by (simp add: VSCODE_PATH_def)
  show ?thesis
    using editor_config_failure [OF assms] vs by (simp add: pip_command_def)
qed

lemma settings_fail_host_facts:
  "os_path_join settings_fail_host ''.vscode'' ''settings.json'' = ''.vscode/settings.json''"
  "os_error settings_fail_host (OpenWrite ''.vscode/settings.json'')
     = Some (Raised OSError ''[Errno 28] No space left on device'')"
  "c \<noteq> OpenWrite ''.vscode/settings.json'' \<Longrightarrow> os_error settings_fail_host c = None"
  "venv_error settings_fail_host d = None"
  "http_get settings_fail_host gitignore_url = Response 200 ''__pycache__/\<newline>''"
  "process settings_fail_host cmd = Exited 0"
  by (simp_all add: settings_fail_host_def good_host_def plain_joins os_sep_def)

lemma demo_state_type: "project_type demo_state = 1" "calls demo_state = []"
  by (simp_all add: demo_state_def init_state_def)

theorem editor_config_failure_ends_run_witness:
  "fst (run_setup_try settings_fail_host demo_state)
     = Inl (Raised OSError ''[Errno 28] No space left on device'')
   \<and> calls (run_setup settings_fail_host demo_state)
     = calls demo_state @ [VenvCreate (venv_dir_of settings_fail_host demo_state),
          HttpGet gitignore_url, SubprocessRun [''git'', ''init'']]"
  using editor_config_failure_ends_run [of demo_state settings_fail_host OSError
      "''[Errno 28] No space left on device''" "''__pycache__/\<newline>''"]
  by (simp add: settings_fail_host_facts demo_state_fresh demo_state_type)

text \<open>
  The claim as the spec words it (an error while writing the editor configuration is
  caught where it occurs, and the dependency installer and the editor launcher still
  run) fails on a host whose disk is full when the settings are written: the installer
  and the launcher are never started.
\<close>

theorem editor_config_failure_counterexample:
  "os_error settings_fail_host
       (OpenWrite (os_path_join settings_fail_host ''.vscode'' ''settings.json''))
     = Some (Raised OSError ''[Errno 28] No space left on device'')
   \<and> calls (run_setup settings_fail_host demo_state)
     = [VenvCreate (venv_dir_of settings_fail_host demo_state),
        HttpGet gitignore_url, SubprocessRun [''git'', ''init'']]
   \<and> SubprocessRun (pip_command settings_fail_host (venv_dir_of settings_fail_host demo_state))
       \<notin> set (calls (run_setup settings_fail_host demo_state))
   \<and> SubprocessRun [VSCODE_PATH, project_dir_of settings_fail_host demo_state]
       \<notin> set (calls (run_setup settings_fail_host demo_state))"
proof -
  have vs: "VSCODE_PATH \<noteq> ''git''" by (simp add: VSCODE_PATH_def)
  have "calls (run_setup settings_fail_host demo_state)
     = calls demo_state @ [VenvCreate (venv_dir_of settings_fail_host demo_state),
          HttpGet gitignore_url, SubprocessRun [''git'', ''init'']]"
    using editor_config_failure [of demo_state settings_fail_host OSError
      "''[Errno 28] No space left on device''" "''__pycache__/\<newline>''"]
    by (simp add: settings_fail_host_facts demo_state_fresh demo_state_type)
  then show ?thesis
    using vs by (simp add: settings_fail_host_facts demo_state_type pip_command_def)
qed

lemma reach_install:
  assumes nex: "\<not> path_exists s (project_dir_of h s)"
    and fs: "\<And>c. os_error h c = None"
    and venv: "venv_error h (venv_dir_of h s) = None"
    and http: "http_get h gitignore_url = Response 200 body"
    and git: "process h [''git'', ''init''] = Exited 0"
    and ty: "project_type s = 1 \<or> project_type s = 2 \<or> project_type s = 3"
  shows "\<exists>s7. run_setup_try h s
            = do_all (steps_8_to_9 h (project_dir_of h s) (venv_dir_of h s)) s7
     \<and> calls s7 = calls s @ [VenvCreate (venv_dir_of h s), HttpGet gitignore_url,
                               SubprocessRun [''git'', ''init'']]"
proof -
  have ok: "\<And>c. c \<noteq> OpenWrite (os_path_join h ''.vscode'' ''settings.json'')
              \<Longrightarrow> os_error h c = None"
    by (simp add: fs)
  obtain s6 where run: "run_setup_try h s
            = do_all (steps_7_to_9 h (project_dir_of h s) (venv_dir_of h s)) s6"
    and calls6: "calls s6 = calls s @ [VenvCreate (venv_dir_of h s), HttpGet gitignore_url,
                               SubprocessRun [''git'', ''init'']]"
    using reach_vscode [OF nex ok venv http git ty] by blast
  define s7 where "s7 = s6\<lparr>dirs := insert (cwd s6, ''.vscode'') (dirs s6),
       files := (files s6)((cwd s6, ''.vscode'' @ os_sep h @ ''settings.json'') \<mapsto> settings_json h),
       output_text := output_text s6 @ [''SUCCESS: VS Code settings configured.''],
       progress_bar := percent 7\<rparr>"
  have "run_setup_try h s = do_all (steps_8_to_9 h (project_dir_of h s) (venv_dir_of h s)) s7"
    by (simp add: run steps_7_to_9_def vscode_ok fs emit_def progress_emit_def s7_def)
  moreover have "calls s7 = calls s @ [VenvCreate (venv_dir_of h s), HttpGet gitignore_url,
                               SubprocessRun [''git'', ''init'']]"
    by (simp add: s7_def calls6)
  ultimately show ?thesis by blast
qed

text \<open>
  Claim C6. In a run that reaches the dependency installer, a non-zero exit status of
  the package manager does not end the run: the failure is caught inside the step and
  logged as an error line, and the editor launcher is started next, so that all nine
  steps are attempted and the run ends with the buttons enabled again. Whenever starting
  the editor returns, or fails in one of the two ways \<open>open_in_vscode\<close> handles, the
  body of \<open>run_setup\<close> reaches its end and the progress is 100.
\<close>

theorem install_failure_is_not_fatal:
  assumes "\<not> path_exists s (project_dir_of h s)"
    and "\<And>c. os_error h c = None"
    and "venv_error h (venv_dir_of h s) = None"
    and "http_get h gitignore_url = Response 200 body"
    and "process h [''git'', ''init''] = Exited 0"
    and "project_type s = 1 \<or> project_type s = 2 \<or> project_type s = 3"
    and pip: "process h (pip_command h (venv_dir_of h s)) = Exited n" and n: "n \<noteq> 0"
  shows "''ERROR: Failed to install dependencies: '' @ cpe_str h (pip_command h (venv_dir_of h s)) n
           \<in> set (output_text (run_setup h s))
     \<and> error_line (''ERROR: Failed to install dependencies: ''
                    @ cpe_str h (pip_command h (venv_dir_of h s)) n)
     \<and> calls (run_setup h s)
         = calls s @ [VenvCreate (venv_dir_of h s), HttpGet gitignore_url,
                      SubprocessRun [''git'', ''init''],
                      SubprocessRun (pip_command h (venv_dir_of h s)),
                      SubprocessRun [VSCODE_PATH, project_dir_of h s]]
     \<and> create_enabled (run_setup h s) \<and> cancel_enabled (run_setup h s)
     \<and> (launch_handled (process h [VSCODE_PATH, project_dir_of h s]) \<longrightarrow>
           fst (run_setup_try h s) = Inr () \<and> progress_bar (run_setup h s) = 100)"
proof -
  obtain s7 where run: "run_setup_try h s
            = do_all (steps_8_to_9 h (project_dir_of h s) (venv_dir_of h s)) s7"
    and calls7: "calls s7 = calls s @ [VenvCreate (venv_dir_of h s), HttpGet gitignore_url,
                               SubprocessRun [''git'', ''init'']]"
    using reach_install [OF assms(1-6)] by blast
  obtain r s' lines where bk: "do_all (steps_8_to_9 h (project_dir_of h s) (venv_dir_of h s)) s7
       = (r, s')"
    and calls': "calls s' = calls s7 @ [SubprocessRun (pip_command h (venv_dir_of h s)),
                   SubprocessRun [VSCODE_PATH, project_dir_of h s]]"
    and out': "output_text s' = output_text s7
          @ [''INFO: Installing dependencies...'',
             ''ERROR: Failed to install dependencies: ''
               @ cpe_str h (pip_command h (venv_dir_of h s)) n]
          @ lines"
    and returned: "r = Inr () \<longrightarrow> progress_bar s' = 100 \<and> create_enabled s' \<and> cancel_enabled s'"
    and handled: "launch_handled (process h [VSCODE_PATH, project_dir_of h s]) \<longrightarrow> r = Inr ()"
    using back_pip_nonzero [OF pip n] by blast
  have tr: "run_setup_try h s = (r, s')" by (simp add: run bk)
  have line_buttons: "''ERROR: Failed to install dependencies: ''
        @ cpe_str h (pip_command h (venv_dir_of h s)) n \<in> set (output_text (run_setup h s))
      \<and> create_enabled (run_setup h s) \<and> cancel_enabled (run_setup h s)"
  proof (cases r)
    case (Inl e)
    obtain c msg where "e = Raised c msg" by (cases e)
    then show ?thesis using tr Inl out' by (simp add: run_setup_raised)
  next
    case (Inr u)
    then show ?thesis using tr out' returned by (simp add: run_setup_returned)
  qed
  have err: "error_line (''ERROR: Failed to install dependencies: ''
                    @ cpe_str h (pip_command h (venv_dir_of h s)) n)"
    by (simp add: error_line_def)
  have cs: "calls (run_setup h s)
         = calls s @ [VenvCreate (venv_dir_of h s), HttpGet gitignore_url,
                      SubprocessRun [''git'', ''init''],
                      SubprocessRun (pip_command h (venv_dir_of h s)),
                      SubprocessRun [VSCODE_PATH, project_dir_of h s]]"
    by (simp add: run_setup_fields tr calls' calls7)
  have fin: "launch_handled (process h [VSCODE_PATH, project_dir_of h s]) \<longrightarrow>
           fst (run_setup_try h s) = Inr () \<and> progress_bar (run_setup h s) = 100"
  proof
    assume "launch_handled (process h [VSCODE_PATH, project_dir_of h s])"
    with handled have r: "r = Inr ()" by simp
    with returned have s': "progress_bar s' = 100" by simp
    have "run_setup h s = s'" using tr r by (simp add: run_setup_returned)
    then show "fst (run_setup_try h s) = Inr () \<and> progress_bar (run_setup h s) = 100"
      using tr r s' by simp
  qed
  from line_buttons err cs fin show ?thesis by blast
qed

lemma pip_fail_host_facts:
  "os_error pip_fail_host c = None"
  "venv_error pip_fail_host d = None"
  "http_get pip_fail_host gitignore_url = Response 200 ''__pycache__/\<newline>''"
  "process pip_fail_host [''git'', ''init''] = Exited 0"
  "process pip_fail_host [VSCODE_PATH, p]
     = NotStarted (Raised FileNotFoundError ''[Errno 2] No such file or directory'')"
  by (simp_all add: pip_fail_host_def good_host_def VSCODE_PATH_def)

lemma pip_fail_host_pip: "process pip_fail_host (pip_command pip_fail_host vd) = Exited 1"
proof -
  have "pip_executable pip_fail_host vd \<noteq> VSCODE_PATH"
    by (simp add: pip_executable_def pip_fail_host_def good_host_def os_path_join_def plain_def
        VSCODE_PATH_def backslash_def)
  then show ?thesis
    by (simp add: pip_fail_host_def good_host_def pip_command_def)
qed

theorem install_failure_is_not_fatal_witness:
  "''ERROR: Failed to install dependencies: ''
      @ cpe_str pip_fail_host (pip_command pip_fail_host (venv_dir_of pip_fail_host demo_state)) 1
      \<in> set (output_text (run_setup pip_fail_host demo_state))
   \<and> calls (run_setup pip_fail_host demo_state)
       = calls demo_state @ [VenvCreate (venv_dir_of pip_fail_host demo_state), HttpGet gitignore_url,
                      SubprocessRun [''git'', ''init''],
                      SubprocessRun (pip_command pip_fail_host (venv_dir_of pip_fail_host demo_state)),
                      SubprocessRun [VSCODE_PATH, project_dir_of pip_fail_host demo_state]]
   \<and> fst (run_setup_try pip_fail_host demo_state) = Inr ()
   \<and> progress_bar (run_setup pip_fail_host demo_state) = 100"
  using install_failure_is_not_fatal [of demo_state pip_fail_host "''__pycache__/\<newline>''" 1]
  by (simp add: pip_fail_host_facts pip_fail_host_pip demo_state_fresh demo_state_type
      launch_handled_def)

lemma readme_demo:
  "readme_content ''demo'' ''python app/main.py''
     = ''# demo\<newline>\<newline>## How to Run\<newline>\<newline>python app/main.py\<newline>\<newline>## How to Run Tests\<newline>\<newline>pytest\<newline>\<newline>## Docker Usage\<newline>### Build Docker Image\<newline>\<newline>docker build -t demo .\<newline>\<newline>### Run Docker Container\<newline>\<newline>docker run --rm demo\<newline>\<newline>## Docker Compose Usage\<newline>\<newline>docker-compose up --build\<newline>\<newline>''"
  by (simp add: readme_content_def readme_head_def docker_run_line_def readme_tail_def
      not_in_python)

lemma requirements_basic:
  "requirements_content basic_packages
     = ''pytest\<newline>pytest-cov\<newline>pytest-mock\<newline>pytest-xdist\<newline>pytest-asyncio\<newline>pytest-profiling\<newline>''"
  by (simp add: requirements_content_def basic_packages_def)

lemma basic_run_files:
  assumes nex: "\<not> path_exists s (project_dir_of h s)"
    and fs: "\<And>c. os_error h c = None"
    and venv: "venv_error h (venv_dir_of h s) = None"
    and http: "http_get h gitignore_url = Response 200 body"
    and git: "process h [''git'', ''init''] = Exited 0"
    and ty: "project_type s = 1"
  shows \<open>files (run_setup h s)
    = (files s)
        ((project_dir_of h s, ''.gitignore'') \<mapsto> body,
         (project_dir_of h s, ''ruff.toml'') \<mapsto> ruff_config,
         (project_dir_of h s, ''app'' @ os_sep h @ ''main.py'') \<mapsto> ''print("Hello, World!")\<newline>'',
         (project_dir_of h s, ''tests'' @ os_sep h @ ''test_basic.py'') \<mapsto> test_true_content,
         (project_dir_of h s, ''README.md'') \<mapsto>
            readme_content (project_name s) ''python app/main.py'',
         (project_dir_of h s, ''Dockerfile'') \<mapsto>
            dockerfile_content (Some ''python app/main.py'') False,
         (project_dir_of h s, ''docker-compose.yml'') \<mapsto>
            docker_compose_content (Some ''python app/main.py'') False False,
         (project_dir_of h s, ''requirements.txt'') \<mapsto> requirements_content basic_packages,
         (project_dir_of h s, ''.vscode'' @ os_sep h @ ''settings.json'') \<mapsto> settings_json h)\<close>
proof -
  have ok: "\<And>c. c \<noteq> OpenWrite (os_path_join h ''.vscode'' ''settings.json'')
              \<Longrightarrow> os_error h c = None"
    by (simp add: fs)
  define s5 where "s5 = linted h body (scaffolded h s)"
  have s5: "project_type s5 = 1" "cwd s5 = project_dir_of h s" "project_name s5 = project_name s"
    "files s5 = (files s)((project_dir_of h s, ''.gitignore'') \<mapsto> body,
         (project_dir_of h s, ''ruff.toml'') \<mapsto> ruff_config)"
    using ty by (simp_all add: s5_def linted_def scaffolded_def)
  define s6 where \<open>s6 = s5\<lparr>dirs := insert (cwd s5, ''tests'') (insert (cwd s5, ''app'') (dirs s5)),
       files := (files s5)
          ((cwd s5, ''app'' @ os_sep h @ ''main.py'') \<mapsto> ''print("Hello, World!")\<newline>'',
           (cwd s5, ''tests'' @ os_sep h @ ''test_basic.py'') \<mapsto> test_true_content,
           (cwd s5, ''README.md'') \<mapsto> readme_content (project_name s5) ''python app/main.py'',
           (cwd s5, ''Dockerfile'') \<mapsto> dockerfile_content (Some ''python app/main.py'') False,
           (cwd s5, ''docker-compose.yml'') \<mapsto>
              docker_compose_content (Some ''python app/main.py'') False False,
           (cwd s5, ''requirements.txt'') \<mapsto> requirements_content basic_packages),
       output_text := output_text s5 @ [''SUCCESS: Basic Python project set up.''],
       progress_bar := percent 6\<rparr>\<close>
  define s7 where "s7 = s6\<lparr>dirs := insert (cwd s6, ''.vscode'') (dirs s6),
       files := (files s6)((cwd s6, ''.vscode'' @ os_sep h @ ''settings.json'') \<mapsto> settings_json h),
       output_text := output_text s6 @ [''SUCCESS: VS Code settings configured.''],
       progress_bar := percent 7\<rparr>"
  have gen: "setup_by_type h s5 = setup_basic_python_project h s5"
    using s5(1) by (simp add: setup_by_type_def)
  have "run_setup_try h s
      = do_all (steps_3_to_9 h (project_dir_of h s) (venv_dir_of h s)) (scaffolded h s)"
    by (rule reach_fetch) (simp_all add: nex fs venv)
  also have "\<dots> = do_all (steps_6_to_9 h (project_dir_of h s) (venv_dir_of h s)) s5"
    unfolding s5_def by (rule reach_template) (simp_all add: http git fs)
  also have "\<dots> = do_all (steps_7_to_9 h (project_dir_of h s) (venv_dir_of h s)) s6"
    by (simp add: steps_6_to_9_def gen basic_ok [OF ok] progress_emit_def s6_def)
  also have "\<dots> = do_all (steps_8_to_9 h (project_dir_of h s) (venv_dir_of h s)) s7"
    by (simp add: steps_7_to_9_def vscode_ok fs emit_def progress_emit_def s7_def)
  finally have run: "run_setup_try h s
      = do_all (steps_8_to_9 h (project_dir_of h s) (venv_dir_of h s)) s7" .
  obtain r s' where "do_all (steps_8_to_9 h (project_dir_of h s) (venv_dir_of h s)) s7 = (r, s')"
    and "files s' = files s7"
    using back_frame by blast
  then have "files (run_setup h s) = files s7"
    by (simp add: run_setup_fields run)
  also have "\<dots> = (files s6)((project_dir_of h s, ''.vscode'' @ os_sep h @ ''settings.json'')
      \<mapsto> settings_json h)"
    by (simp add: s7_def s6_def s5)
  finally show ?thesis
    by (simp add: s6_def s5)
qed

text \<open>
  Claim C1. The request for a basic project named demo, on a host where the directory of
  demo does not exist yet and the steps up to the template succeed, leaves in the project
  directory app/main.py holding exactly the hello-world line, tests/test_basic.py holding
  the always-true test, README.md whose section on running holds the command
  \<open>python app/main.py\<close>, and requirements.txt holding the six pytest packages, one per
  line, in the order pytest, pytest-cov, pytest-mock, pytest-xdist, pytest-asyncio,
  pytest-profiling.
\<close>

theorem demo_basic_project:
  assumes "\<not> path_exists s (os_path_join h BASE_PATH ''demo'')"
    and "\<And>c. os_error h c = None"
    and "venv_error h (os_path_join h (os_path_join h BASE_PATH ''demo'') ''.venv'') = None"
    and "http_get h gitignore_url = Response 200 body"
    and "process h [''git'', ''init''] = Exited 0"
  shows \<open>files (create_project h ''demo'' 0 s)
          (os_path_join h BASE_PATH ''demo'', ''app'' @ os_sep h @ ''main.py'')
        = Some ''print("Hello, World!")\<newline>''
    \<and> files (create_project h ''demo'' 0 s)
          (os_path_join h BASE_PATH ''demo'', ''tests'' @ os_sep h @ ''test_basic.py'')
        = Some ''def test_true():\<newline>    assert True\<newline>''
    \<and> files (create_project h ''demo'' 0 s) (os_path_join h BASE_PATH ''demo'', ''README.md'')
        = Some ''# demo\<newline>\<newline>## How to Run\<newline>\<newline>python app/main.py\<newline>\<newline>## How to Run Tests\<newline>\<newline>pytest\<newline>\<newline>## Docker Usage\<newline>### Build Docker Image\<newline>\<newline>docker build -t demo .\<newline>\<newline>### Run Docker Container\<newline>\<newline>docker run --rm demo\<newline>\<newline>## Docker Compose Usage\<newline>\<newline>docker-compose up --build\<newline>\<newline>''
    \<and> files (create_project h ''demo'' 0 s)
          (os_path_join h BASE_PATH ''demo'', ''requirements.txt'')
        = Some ''pytest\<newline>pytest-cov\<newline>pytest-mock\<newline>pytest-xdist\<newline>pytest-asyncio\<newline>pytest-profiling\<newline>''\<close>
proof -
  define s0 where "s0 = s\<lparr>project_name := ''demo'', project_type := 1,
     create_enabled := False, cancel_enabled := False, progress_bar := 0, output_text := []\<rparr>"
  have cp: "create_project h ''demo'' 0 s = run_setup h s0"
    by (simp add: create_project_def Let_def strip_demo s0_def)
  have pd: "project_dir_of h s0 = os_path_join h BASE_PATH ''demo''"
    and vd: "venv_dir_of h s0 = os_path_join h (os_path_join h BASE_PATH ''demo'') ''.venv''"
    and nm: "project_name s0 = ''demo''"
    by (simp_all add: project_dir_of_def venv_dir_of_def s0_def)
  have nex: "\<not> path_exists s0 (project_dir_of h s0)"
    using assms(1) by (simp add: pd) (simp add: path_exists_def s0_def)
  have ty: "project_type s0 = 1" by (simp add: s0_def)
  have venv: "venv_error h (venv_dir_of h s0) = None" using assms(3) by (simp add: vd)
  note fl = basic_run_files [OF nex assms(2) venv assms(4) assms(5) ty, unfolded pd nm]
  show ?thesis
    unfolding cp fl
    by (simp add: readme_demo requirements_basic test_true_content_def)
qed

theorem demo_basic_project_witness:
  \<open>files (create_project good_host ''demo'' 0 init_state)
          (os_path_join good_host BASE_PATH ''demo'', ''app'' @ os_sep good_host @ ''main.py'')
        = Some ''print("Hello, World!")\<newline>''
    \<and> files (create_project good_host ''demo'' 0 init_state)
          (os_path_join good_host BASE_PATH ''demo'', ''requirements.txt'')
        = Some ''pytest\<newline>pytest-cov\<newline>pytest-mock\<newline>pytest-xdist\<newline>pytest-asyncio\<newline>pytest-profiling\<newline>''\<close>
proof -
  have "\<not> path_exists init_state p" for p
    by (simp add: path_exists_def init_state_def)
  moreover have "venv_error good_host d = None" 
    "http_get good_host gitignore_url = Response 200 ''__pycache__/\<newline>''"
    "process good_host cmd = Exited 0" for d cmd
    by (simp_all add: good_host_def)
  ultimately show ?thesis
    using demo_basic_project [of init_state good_host "''__pycache__/\<newline>''"]
    by (simp add: good_host_fs)
qed

end
